theory Spec2Isabelle
  imports Complex_Main
begin

section \<open>Composite rendering of image layers (src/internal/drawCompositeImage.js)\<close>

text \<open>
  A shallow embedding of \<^verbatim>\<open>drawCompositeImage.js\<close>: the viewport synchroniser, the
  layer rescaler, the PET fusion transform and the composite renderer.

  Conventions of the embedding.
  \<^item> A JavaScript number is a \<open>real\<close>. Rounding, \<^verbatim>\<open>NaN\<close> and the infinities of
    IEEE doubles are outside the model; a division is written with \<open>/\<close> exactly where
    the source divides. Where a divisor is 0 the source gives an infinity or
    \<^verbatim>\<open>NaN\<close>, which the model does not have: the theorems state quotients as the
    source writes them, and the worked examples have no zero divisor.
  \<^item> A property that may be \<^verbatim>\<open>undefined\<close> is an \<open>option\<close>; reading a property
    of \<^verbatim>\<open>undefined\<close> is the outcome \<open>Throws TypeError\<close>. A flag that the source
    copies or tests (\<^verbatim>\<open>hflip\<close>, \<^verbatim>\<open>labelmap\<close>, \<^verbatim>\<open>reSize\<close>, the sync flags)
    is a \<open>bool\<close>, and a layer identifier is a string.
  \<^item> Layers are mutable objects shared between the registry's lists, so they live in a
    store indexed by references; \<^verbatim>\<open>===\<close> on layers is equality of references. The
    image, viewport, options and snapshot objects of a layer are owned by that layer.
  \<^item> An exception leaves the mutations made so far in place, so an outcome carries the
    state in both cases.
  \<^item> The calls on the drawing context and on the external renderers are recorded in a
    log, \<open>context2d\<close>, in the order in which they are made. The calls of
    \<^verbatim>\<open>syncViewports\<close> are recorded in \<open>syncPasses\<close>.
  \<^item> Field names follow the source; a field is renamed only where two objects share a
    name or where the name is a constant of HOL: \<^verbatim>\<open>x\<close>, \<^verbatim>\<open>y\<close> are
    \<open>pt_x\<close>, \<open>pt_y\<close>; \<^verbatim>\<open>canvas.width\<close> is \<open>canvas_width\<close>;
    \<^verbatim>\<open>displayedArea.columnPixelSpacing\<close> is \<open>da_columnPixelSpacing\<close>;
    \<^verbatim>\<open>options.colormap\<close> is \<open>options_colormap\<close>; \<^verbatim>\<open>layer.image\<close> is
    \<open>layer_image\<close> and \<^verbatim>\<open>layer.canvas\<close> is \<open>layer_canvas\<close>;
    \<^verbatim>\<open>enabledElement.syncViewports\<close> is \<open>syncViewportsFlag\<close>.
  \<^item> The body of a loop and a block of a long function are definitions of their own,
    named after the function and introduced with the lines they embed.
\<close>

subsection \<open>Data model\<close>

record Point =
  pt_x :: real
  pt_y :: real

record Canvas =
  canvas_width :: real
  canvas_height :: real

record Image =
  imageId :: "string option"
  width :: real
  height :: real
  rowPixelSpacing :: real
  columnPixelSpacing :: real
  color :: bool

record DisplayedArea =
  tlhc :: Point
  brhc :: Point
  da_columnPixelSpacing :: real

record Viewport =
  scale :: real
  rotation :: real
  translation :: Point
  hflip :: bool
  vflip :: bool
  displayedArea :: DisplayedArea
  colormap :: "string option"
  labelmap :: bool
  pixelReplication :: bool

record Options =
  name :: "string option"
  reSize :: bool
  opacity :: "real option"
  fillStyle :: "string option"
  options_colormap :: "string option"

record SyncProps =
  originalScale :: real

record Layer =
  layerId :: string
  layer_image :: "Image option"
  viewport :: "Viewport option"
  options :: "Options option"
  syncProps :: "SyncProps option"
  invalid :: bool
  layer_canvas :: "Canvas option"

type_synonym ref = nat

record EnabledElement =
  canvas :: Canvas
  syncViewportsFlag :: bool
  lastSyncViewportsState :: bool

text \<open>
  The calls made on the 2D drawing context and on the external renderers, in the order
  in which they are made. The renderers and \<^verbatim>\<open>setToPixelCoordinateSystem\<close> are
  outside this file: a call to one of them is recorded, with its arguments.
\<close>

datatype draw_event =
    Save
  | Restore
  | SetTransform real real real real real real
  | SetToPixelCoordinateSystem ref
  | AddLabelMapLayer ref bool
  | AddPseudoColorLayer ref bool
  | AddColorLayer ref bool
  | AddGrayscaleLayer ref bool bool
  | SetGlobalAlpha real
  | SetFillStyle string
  | SetImageSmoothingEnabled bool
  | SetMozImageSmoothingEnabled bool
  | FillRect real real real real
  | DrawImage ref real real real real real real real real

text \<open>
  \<open>syncPasses\<close> counts what the source keeps no count of: every call of
  \<^verbatim>\<open>syncViewports\<close> is entered in it, with its two arguments, when the call starts.
  A second pass over the same layers leaves the layers as the first left them, so the
  number of passes of a render call can only be stated on this record. No definition
  reads it.
\<close>

record world =
  heap :: "ref \<Rightarrow> Layer"
  enabledElement :: EnabledElement
  context2d :: "draw_event list"
  syncPasses :: "(ref list \<times> ref option) list"

datatype js_error = TypeError | Error string

datatype 'a outcome = Returns 'a world | Throws js_error world

text \<open>The state an outcome leaves behind, whether the call returned or threw.\<close>

fun world_of :: "'a outcome \<Rightarrow> world" where
  "world_of (Returns a w) = w"
| "world_of (Throws e w) = w"

text \<open>Sequencing of statements: an exception skips the rest.\<close>

fun andThen :: "'a outcome \<Rightarrow> ('a \<Rightarrow> world \<Rightarrow> 'b outcome) \<Rightarrow> 'b outcome" where
  "andThen (Returns a w) f = f a w"
| "andThen (Throws e w) f = Throws e w"

text \<open>
  \<^verbatim>\<open>Array.prototype.forEach\<close> and \<^verbatim>\<open>for (... of ...)\<close>: the body runs on each
  element in order; a \<^verbatim>\<open>return\<close> inside the body ends that element only.
\<close>

fun forEach :: "'a list \<Rightarrow> ('a \<Rightarrow> world \<Rightarrow> unit outcome) \<Rightarrow> world \<Rightarrow> unit outcome" where
  "forEach [] f w = Returns () w"
| "forEach (a # as) f w = andThen (f a w) (\<lambda>u. forEach as f)"

definition updateLayer :: "ref \<Rightarrow> (Layer \<Rightarrow> Layer) \<Rightarrow> world \<Rightarrow> world" where
  "updateLayer l f w = w\<lparr>heap := (heap w)(l := f (heap w l))\<rparr>"

definition emit :: "draw_event \<Rightarrow> world \<Rightarrow> world" where
  "emit ev w = w\<lparr>context2d := context2d w @ [ev]\<rparr>"

text \<open>Truthiness of an optional string: \<^verbatim>\<open>undefined\<close> and \<^verbatim>\<open>''\<close> are falsy.\<close>

fun truthy_string :: "string option \<Rightarrow> bool" where
  "truthy_string None = False"
| "truthy_string (Some s) = (s \<noteq> [])"

text \<open>\<^verbatim>\<open>String.prototype.indexOf\<close>: the first position of the pattern, or \<open>-1\<close>.\<close>

fun indexOf_from :: "string \<Rightarrow> string \<Rightarrow> int \<Rightarrow> int" where
  "indexOf_from [] p i = (if p = [] then i else - 1)"
| "indexOf_from (c # cs) p i =
     (if take (length p) (c # cs) = p then i else indexOf_from cs p (i + 1))"

definition indexOf :: "string \<Rightarrow> string \<Rightarrow> int" where
  "indexOf s p = indexOf_from s p 0"

text \<open>
  The test both the renderer and the resize loop apply to an image identifier:
  \<^verbatim>\<open>imageId.indexOf('petmpr') > -1 && imageId.indexOf('Axial') === -1\<close>.
\<close>

definition isNonAxialPetMpr :: "string \<Rightarrow> bool" where
  "isNonAxialPetMpr s = (indexOf s ''petmpr'' > - 1 \<and> indexOf s ''Axial'' = - 1)"

subsection \<open>Viewport sync state\<close>

text \<open>
  \<^verbatim>\<open>updateLayerSyncProps(layer)\<close>: stores the viewport's current scale as the
  snapshot's \<^verbatim>\<open>originalScale\<close>, creating the snapshot when it is missing.
\<close>

definition updateLayerSyncProps :: "ref \<Rightarrow> world \<Rightarrow> unit outcome" where
  "updateLayerSyncProps l w =
     (case viewport (heap w l) of
        None \<Rightarrow> Throws TypeError w
      | Some v \<Rightarrow>
          Returns () (updateLayer l (\<lambda>L. L\<lparr>syncProps :=
            Some (case syncProps L of
                    None \<Rightarrow> \<lparr>originalScale = scale v\<rparr>
                  | Some sp \<Rightarrow> sp\<lparr>originalScale := scale v\<rparr>)\<rparr>) w))"

text \<open>\<^verbatim>\<open>if (!layer.syncProps) { updateLayerSyncProps(layer); }\<close>\<close>

definition ensureSyncProps :: "ref \<Rightarrow> world \<Rightarrow> unit outcome" where
  "ensureSyncProps l w =
     (case syncProps (heap w l) of
        None \<Rightarrow> updateLayerSyncProps l w
      | Some sp \<Rightarrow> Returns () w)"

text \<open>
  \<^verbatim>\<open>getViewportRatio(baseLayer, targetLayer)\<close>: both snapshots are created on demand,
  the base's first; the result is the quotient of the two recorded scales.
\<close>

definition getViewportRatio :: "ref \<Rightarrow> ref \<Rightarrow> world \<Rightarrow> real outcome" where
  "getViewportRatio baseLayer targetLayer w =
     andThen (ensureSyncProps baseLayer w) (\<lambda>u1 w1.
     andThen (ensureSyncProps targetLayer w1) (\<lambda>u2 w2.
       (case (syncProps (heap w2 targetLayer), syncProps (heap w2 baseLayer)) of
          (Some t, Some b) \<Rightarrow> Returns (originalScale t / originalScale b) w2
        | (t, b) \<Rightarrow> Throws TypeError w2)))"

subsection \<open>Viewport synchroniser\<close>

text \<open>
  The callback of \<^verbatim>\<open>syncViewports\<close> (lines 35 to 60). The active layer is optional:
  the registry answers \<^verbatim>\<open>undefined\<close> when no layer is active, and then
  \<^verbatim>\<open>activeLayer.viewport\<close> throws for the first layer that has a viewport.
\<close>

definition syncViewports_layer :: "ref option \<Rightarrow> ref \<Rightarrow> world \<Rightarrow> unit outcome" where
  "syncViewports_layer activeLayer layer w =
     (if Some layer = activeLayer then Returns () w
      else case viewport (heap w layer) of
        None \<Rightarrow> Returns () w
      | Some lv0 \<Rightarrow>
          (case activeLayer of
             None \<Rightarrow> Throws TypeError w
           | Some a \<Rightarrow>
               (case viewport (heap w a) of
                  None \<Rightarrow> Returns () w
                | Some av0 \<Rightarrow>
                    andThen (ensureSyncProps layer w) (\<lambda>u w1.
                    andThen (getViewportRatio a layer w1) (\<lambda>viewportRatio w2.
                      (case (viewport (heap w2 layer), viewport (heap w2 a)) of
                         (Some lv, Some av) \<Rightarrow>
                           Returns () (updateLayer layer (\<lambda>L. L\<lparr>viewport := Some (lv
                             \<lparr>scale := scale av * viewportRatio,
                              rotation := rotation av,
                              translation :=
                                \<lparr>pt_x = pt_x (translation av) / viewportRatio,
                                 pt_y = pt_y (translation av) / viewportRatio\<rparr>,
                              hflip := hflip av,
                              vflip := vflip av\<rparr>)\<rparr>) w2)
                       | (lv, av) \<Rightarrow> Throws TypeError w2))))))"

text \<open>The loop of \<^verbatim>\<open>syncViewports\<close>: \<^verbatim>\<open>layers.forEach\<close> over the callback.\<close>

definition syncViewports_loop :: "ref list \<Rightarrow> ref option \<Rightarrow> world \<Rightarrow> unit outcome" where
  "syncViewports_loop layers activeLayer w = forEach layers (syncViewports_layer activeLayer) w"

text \<open>
  \<^verbatim>\<open>syncViewports(layers, activeLayer)\<close>: the call is entered in \<open>syncPasses\<close>, then
  the loop runs.
\<close>

definition syncViewports :: "ref list \<Rightarrow> ref option \<Rightarrow> world \<Rightarrow> unit outcome" where
  "syncViewports layers activeLayer w =
     syncViewports_loop layers activeLayer
       (w\<lparr>syncPasses := syncPasses w @ [(layers, activeLayer)]\<rparr>)"

subsection \<open>Layer rescaler\<close>

text \<open>
  \<^verbatim>\<open>rescaleImage(baseLayer, targetLayer)\<close>. The base is optional because the renderer
  passes \<^verbatim>\<open>ctFusionLayer[0]\<close>, which is \<^verbatim>\<open>undefined\<close> for an empty array.
\<close>

definition rescaleImage :: "ref option \<Rightarrow> ref \<Rightarrow> world \<Rightarrow> unit outcome" where
  "rescaleImage baseLayer targetLayer w =
     (case baseLayer of
        None \<Rightarrow> Throws TypeError w
      | Some b \<Rightarrow>
          if layerId (heap w b) = layerId (heap w targetLayer)
          then Throws (Error ''rescaleImage: both arguments represent the same layer'') w
          else
            (case layer_image (heap w b) of
               None \<Rightarrow> Throws TypeError w
             | Some baseImage \<Rightarrow>
                 if \<not> truthy_string (imageId baseImage) then Returns () w
                 else
                   (case layer_image (heap w targetLayer) of
                      None \<Rightarrow> Throws TypeError w
                    | Some targetImage \<Rightarrow>
                        if \<not> truthy_string (imageId targetImage) then Returns () w
                        else
                          (case (viewport (heap w targetLayer), viewport (heap w b)) of
                             (Some tv, Some bv) \<Rightarrow>
                               (let colRelative =
                                      (da_columnPixelSpacing (displayedArea tv) * width targetImage) /
                                      (da_columnPixelSpacing (displayedArea bv) * width baseImage);
                                    viewportRatio = scale tv / scale bv * colRelative
                                in Returns ()
                                     (updateLayer targetLayer
                                        (\<lambda>L. L\<lparr>viewport := Some (tv\<lparr>scale := scale bv * viewportRatio\<rparr>)\<rparr>) w))
                           | (tv, bv) \<Rightarrow> Throws TypeError w))))"

subsection \<open>Affine transform\<close>

text \<open>
  Modelled from the spec: the \<^verbatim>\<open>Transform\<close> class of \<^verbatim>\<open>./transform.js\<close> is
  imported by the source file and is not part of it. The spec describes it as a 2D matrix
  of six coefficients (linear 2x2 part and translation), starting as the identity, on
  which translate, rotate and scale right-compose. \<open>m0\<close> to \<open>m5\<close> are
  \<^verbatim>\<open>m[0]\<close> to \<^verbatim>\<open>m[5]\<close>, in the order \<^verbatim>\<open>setTransform\<close> takes them.
\<close>

record Transform =
  m0 :: real
  m1 :: real
  m2 :: real
  m3 :: real
  m4 :: real
  m5 :: real

text \<open>Modelled from the spec: \<^verbatim>\<open>new Transform()\<close>, the identity matrix.\<close>

definition Transform_new :: Transform where
  "Transform_new = \<lparr>m0 = 1, m1 = 0, m2 = 0, m3 = 1, m4 = 0, m5 = 0\<rparr>"

text \<open>
  Modelled from the spec: \<^verbatim>\<open>transform.translate(x, y)\<close>, the matrix multiplied on
  the right by a translation.
\<close>

definition Transform_translate :: "Transform \<Rightarrow> real \<Rightarrow> real \<Rightarrow> Transform" where
  "Transform_translate t tx ty =
     t\<lparr>m4 := m4 t + m0 t * tx + m2 t * ty, m5 := m5 t + m1 t * tx + m3 t * ty\<rparr>"

text \<open>
  Modelled from the spec: \<^verbatim>\<open>transform.rotate(rad)\<close>, the matrix multiplied on the
  right by a rotation by \<open>rad\<close> radians, in the orientation of the canvas.
\<close>

definition Transform_rotate :: "Transform \<Rightarrow> real \<Rightarrow> Transform" where
  "Transform_rotate t rad =
     (let c = cos rad; s = sin rad
      in \<lparr>m0 = m0 t * c + m2 t * s, m1 = m1 t * c + m3 t * s,
          m2 = m0 t * - s + m2 t * c, m3 = m1 t * - s + m3 t * c,
          m4 = m4 t, m5 = m5 t\<rparr>)"

text \<open>
  Modelled from the spec: \<^verbatim>\<open>transform.scale(sx, sy)\<close>, the matrix multiplied on the
  right by a scaling of the two axes.
\<close>

definition Transform_scale :: "Transform \<Rightarrow> real \<Rightarrow> real \<Rightarrow> Transform" where
  "Transform_scale t sx sy =
     t\<lparr>m0 := m0 t * sx, m1 := m1 t * sx, m2 := m2 t * sy, m3 := m3 t * sy\<rparr>"

subsection \<open>Fusion transform calculator\<close>

text \<open>
  \<^verbatim>\<open>calculatePetFuisonTransform(enabledElement, activeLayer)\<close>. The renderer passes the
  layer being drawn as the first argument, so \<^verbatim>\<open>enabledElement.canvas\<close> and
  \<^verbatim>\<open>enabledElement.viewport\<close> are that layer's. The locals \<^verbatim>\<open>width\<close> and
  \<^verbatim>\<open>height\<close> are \<open>dWidth\<close> and \<open>dHeight\<close>. The ratio of line 255 changes
  snapshots only, so the viewport read before it is the one read after it.
\<close>

definition calculatePetFuisonTransform :: "ref \<Rightarrow> ref option \<Rightarrow> world \<Rightarrow> Transform outcome" where
  "calculatePetFuisonTransform enabledElementLayer activeLayer w =
     (case activeLayer of
        None \<Rightarrow> Throws TypeError w
      | Some a \<Rightarrow>
    (case viewport (heap w a) of
        None \<Rightarrow> Throws TypeError w
      | Some av \<Rightarrow>
    (case layer_image (heap w a) of
        None \<Rightarrow> Throws TypeError w
      | Some ai \<Rightarrow>
    (case layer_canvas (heap w enabledElementLayer) of
        None \<Rightarrow> Throws TypeError w
      | Some cv \<Rightarrow>
    (case viewport (heap w enabledElementLayer) of
        None \<Rightarrow> Throws TypeError w
      | Some ev \<Rightarrow>
       (let activeWidthScale =
              (if rowPixelSpacing ai < columnPixelSpacing ai
               then scale av * (columnPixelSpacing ai / rowPixelSpacing ai)
               else scale av);
            activeHeightScale =
              (if rowPixelSpacing ai < columnPixelSpacing ai then scale av
               else if columnPixelSpacing ai < rowPixelSpacing ai
               then scale av * (rowPixelSpacing ai / columnPixelSpacing ai)
               else scale av);
            t1 = Transform_translate Transform_new (canvas_width cv / 2) (canvas_height cv / 2);
            angle = rotation ev;
            t2 = (if angle \<noteq> 0 then Transform_rotate t1 (angle * pi / 180) else t1);
            dWidth = pt_x (brhc (displayedArea ev)) - (pt_x (tlhc (displayedArea ev)) - 1);
            dHeight = pt_y (brhc (displayedArea ev)) - (pt_y (tlhc (displayedArea ev)) - 1);
            activeHeight = pt_y (brhc (displayedArea av)) - (pt_y (tlhc (displayedArea av)) - 1)
        in andThen (getViewportRatio a enabledElementLayer w) (\<lambda>viewportRatio w'.
            (let widthScale = activeWidthScale * viewportRatio;
                 heightScale = activeHeightScale * (activeHeight / dHeight);
                 t3 = Transform_scale t2 widthScale heightScale;
                 t4 = (if angle \<noteq> 0 then Transform_rotate t3 (- angle * pi / 180) else t3);
                 t5 = Transform_translate t4 (pt_x (translation ev)) (pt_y (translation ev));
                 t6 = (if angle \<noteq> 0 then Transform_rotate t5 (angle * pi / 180) else t5);
                 t7 = (if hflip ev then Transform_scale t6 (- 1) 1 else t6);
                 t8 = (if vflip ev then Transform_scale t7 1 (- 1) else t7);
                 t9 = Transform_translate t8 (- dWidth / 2) (- dHeight / 2)
             in Returns t9 w'))))))))"

subsection \<open>Layer rasteriser and per-layer drawing\<close>

text \<open>
  \<^verbatim>\<open>layer.viewport.colormap || layer.options.colormap\<close>: the options are read only
  when the viewport's colormap is falsy, and reading them throws when they are missing.
\<close>

definition layerColormap :: "Viewport \<Rightarrow> Options option \<Rightarrow> world \<Rightarrow> string option outcome" where
  "layerColormap vp opts w =
     (if truthy_string (colormap vp) then Returns (colormap vp) w
      else case opts of
             None \<Rightarrow> Throws TypeError w
           | Some ops \<Rightarrow> Returns (options_colormap ops) w)"

text \<open>Lines 98 to 109: the renderer called for a layer, as the call that is recorded.\<close>

definition rasterize :: "ref \<Rightarrow> nat \<Rightarrow> string option \<Rightarrow> bool \<Rightarrow> Image \<Rightarrow> bool \<Rightarrow> draw_event" where
  "rasterize layer index cm lm img isInvalid =
     (if truthy_string cm \<and> lm then AddLabelMapLayer layer isInvalid
      else if truthy_string cm then AddPseudoColorLayer layer isInvalid
      else if color img then AddColorLayer layer isInvalid
      else AddGrayscaleLayer layer isInvalid (index = 0))"

text \<open>Lines 112 to 116: the value given to \<^verbatim>\<open>context.globalAlpha\<close>.\<close>

definition globalAlpha :: "Options option \<Rightarrow> real" where
  "globalAlpha opts =
     (case opts of
        None \<Rightarrow> 1
      | Some ops \<Rightarrow>
          (case opacity ops of
             None \<Rightarrow> 1
           | Some v \<Rightarrow> if v \<noteq> 0 then v else 1))"

text \<open>Lines 118 to 120: \<^verbatim>\<open>context.fillStyle\<close> is assigned only for a truthy option.\<close>

definition applyFillStyle :: "Options option \<Rightarrow> world \<Rightarrow> world" where
  "applyFillStyle opts w =
     (case opts of
        None \<Rightarrow> w
      | Some ops \<Rightarrow>
          (case fillStyle ops of
             None \<Rightarrow> w
           | Some fs \<Rightarrow> if fs \<noteq> [] then emit (SetFillStyle fs) w else w))"

text \<open>
  Lines 85 to 91: the fusion transform for a PET MPR image that is not axial, the
  standard pixel coordinate system otherwise.
\<close>

definition applyLayerTransform :: "ref \<Rightarrow> ref option \<Rightarrow> string \<Rightarrow> world \<Rightarrow> unit outcome" where
  "applyLayerTransform layer activeLayer iid w =
     (if isNonAxialPetMpr iid
      then andThen (calculatePetFuisonTransform layer activeLayer w) (\<lambda>t w'.
             Returns () (emit (SetTransform (m0 t) (m1 t) (m2 t) (m3 t) (m4 t) (m5 t)) w'))
      else Returns () (emit (SetToPixelCoordinateSystem layer) w))"

text \<open>
  Lines 94 to 136: the renderer is chosen and called, opacity, fill style and smoothing
  are set, the layer's displayed area is copied and the layer is marked valid. The
  locals \<^verbatim>\<open>width\<close> and \<^verbatim>\<open>height\<close> are \<open>dWidth\<close> and \<open>dHeight\<close>.
\<close>

definition rasterizeAndDraw :: "nat \<Rightarrow> ref \<Rightarrow> Image \<Rightarrow> bool \<Rightarrow> world \<Rightarrow> unit outcome" where
  "rasterizeAndDraw index layer img invalidated w =
     (case viewport (heap w layer) of
        None \<Rightarrow> Throws TypeError w
      | Some vp \<Rightarrow>
          andThen (layerColormap vp (options (heap w layer)) w) (\<lambda>cm w4.
            (let isInvalid = (invalid (heap w4 layer) \<or> invalidated);
                 w5 = emit (rasterize layer index cm (labelmap vp) img isInvalid) w4;
                 w6 = emit (SetGlobalAlpha (globalAlpha (options (heap w5 layer)))) w5;
                 w7 = applyFillStyle (options (heap w6 layer)) w6;
                 w8 = emit (SetMozImageSmoothingEnabled (\<not> pixelReplication vp))
                        (emit (SetImageSmoothingEnabled (\<not> pixelReplication vp)) w7);
                 sx = pt_x (tlhc (displayedArea vp)) - 1;
                 sy = pt_y (tlhc (displayedArea vp)) - 1;
                 dWidth = pt_x (brhc (displayedArea vp)) - sx;
                 dHeight = pt_y (brhc (displayedArea vp)) - sy;
                 w9 = emit (DrawImage layer sx sy dWidth dHeight 0 0 dWidth dHeight) w8;
                 w10 = emit Restore w9
             in Returns () (updateLayer layer (\<lambda>L. L\<lparr>invalid := False\<rparr>) w10))))"

text \<open>
  The callback of \<^verbatim>\<open>renderLayers\<close> (lines 75 to 137), for the layer at position
  \<open>index\<close> of the list. \<open>ctxCanvas\<close> is \<^verbatim>\<open>context.canvas\<close>. A layer with no
  image is skipped; \<^verbatim>\<open>imageId.indexOf\<close> throws when the image has no identifier.
\<close>

definition renderLayers_layer ::
    "Canvas \<Rightarrow> ref option \<Rightarrow> bool \<Rightarrow> nat \<times> ref \<Rightarrow> world \<Rightarrow> unit outcome" where
  "renderLayers_layer ctxCanvas activeLayer invalidated il w =
     (let index = fst il; layer = snd il in
      case layer_image (heap w layer) of
        None \<Rightarrow> Returns () w
      | Some img \<Rightarrow>
         (let w1 = updateLayer layer (\<lambda>L. L\<lparr>layer_canvas := Some ctxCanvas\<rparr>) (emit Save w) in
          case imageId img of
            None \<Rightarrow> Throws TypeError w1
          | Some iid \<Rightarrow>
              andThen (applyLayerTransform layer activeLayer iid w1)
                (\<lambda>u. rasterizeAndDraw index layer img invalidated)))"

definition renderLayers :: "Canvas \<Rightarrow> ref list \<Rightarrow> ref option \<Rightarrow> bool \<Rightarrow> world \<Rightarrow> unit outcome" where
  "renderLayers ctxCanvas layers activeLayer invalidated w =
     forEach (enumerate 0 layers) (renderLayers_layer ctxCanvas activeLayer invalidated) w"

subsection \<open>Composite renderer\<close>

text \<open>
  The result of \<^verbatim>\<open>getImageFitScale(canvas, image, rotation)\<close>, a function of
  \<^verbatim>\<open>./getImageFitScale.js\<close> that the source file imports; the renderer takes it as
  the parameter \<open>fit\<close>.
\<close>

record FitScale =
  verticalScale :: real
  horizontalScale :: real
  scaleFactor :: real

text \<open>
  Line 169, the test of \<^verbatim>\<open>allLayers.some\<close>: the layer has options, they name it
  \<^verbatim>\<open>'PET'\<close> and their \<^verbatim>\<open>reSize\<close> is set.
\<close>

definition isPetResize :: "Layer \<Rightarrow> bool" where
  "isPetResize L =
     (case options L of
        None \<Rightarrow> False
      | Some ops \<Rightarrow> truthy_string (name ops) \<and> name ops = Some ''PET'' \<and> reSize ops)"

definition bResetPetScale :: "ref list \<Rightarrow> world \<Rightarrow> bool" where
  "bResetPetScale allLayers w = list_ex (\<lambda>layer. isPetResize (heap w layer)) allLayers"

text \<open>
  Lines 173 to 175: \<^verbatim>\<open>allLayers.filter(layer => layer.options.name !== 'PET')\<close>. The
  test reads \<^verbatim>\<open>layer.options.name\<close> of every layer, and throws at the first layer
  that has no options.
\<close>

fun filterNotPet :: "ref list \<Rightarrow> world \<Rightarrow> ref list outcome" where
  "filterNotPet [] w = Returns [] w"
| "filterNotPet (layer # layers) w =
     (case options (heap w layer) of
        None \<Rightarrow> Throws TypeError w
      | Some ops \<Rightarrow>
          andThen (filterNotPet layers w) (\<lambda>rest w'.
            Returns (if name ops \<noteq> Some ''PET'' then layer # rest else rest) w'))"

text \<open>\<^verbatim>\<open>ctFusionLayer[0]\<close>: \<^verbatim>\<open>undefined\<close> for the empty array.\<close>

fun firstElement :: "'a list \<Rightarrow> 'a option" where
  "firstElement [] = None"
| "firstElement (a # as) = Some a"

text \<open>
  Lines 179 to 189, for a layer named \<^verbatim>\<open>'PET'\<close> whose options are \<open>ops\<close>: the
  layer gets the fit scale (the horizontal or the vertical one for a PET MPR image that
  is not axial, by the image's aspect; the combined one otherwise), is rescaled against
  \<^verbatim>\<open>ctFusionLayer[0]\<close> and has its \<^verbatim>\<open>reSize\<close> cleared.
\<close>

definition resizePetLayer ::
    "(Canvas \<Rightarrow> Image \<Rightarrow> real \<Rightarrow> FitScale) \<Rightarrow> ref list \<Rightarrow> ref \<Rightarrow> Options \<Rightarrow> world \<Rightarrow> unit outcome" where
  "resizePetLayer fit ctFusionLayer layer ops w =
     (case layer_image (heap w layer) of
        None \<Rightarrow> Throws TypeError w
      | Some img \<Rightarrow>
     (case imageId img of
        None \<Rightarrow> Throws TypeError w
      | Some iid \<Rightarrow>
     (case viewport (heap w layer) of
        None \<Rightarrow> Throws TypeError w
      | Some vp \<Rightarrow>
         (let fs = fit (canvas (enabledElement w)) img 0;
              newScale =
                (if isNonAxialPetMpr iid
                 then (if height img < width img then horizontalScale fs
                       else verticalScale fs)
                 else scaleFactor fs);
              w1 = updateLayer layer (\<lambda>L. L\<lparr>viewport := Some (vp\<lparr>scale := newScale\<rparr>)\<rparr>) w
          in andThen (rescaleImage (firstElement ctFusionLayer) layer w1) (\<lambda>u w2.
               Returns () (updateLayer layer
                 (\<lambda>L. L\<lparr>options := Some (ops\<lparr>reSize := False\<rparr>)\<rparr>) w2))))))"

text \<open>
  The body of the loop of lines 177 to 194. Every layer named \<^verbatim>\<open>'PET'\<close>, with or
  without a resize request of its own, is resized; then every layer that has a viewport,
  whatever its name, has its snapshot taken again (lines 191 to 193).
\<close>

definition resizeLoop_layer ::
    "(Canvas \<Rightarrow> Image \<Rightarrow> real \<Rightarrow> FitScale) \<Rightarrow> ref list \<Rightarrow> ref \<Rightarrow> world \<Rightarrow> unit outcome" where
  "resizeLoop_layer fit ctFusionLayer layer w =
     (case options (heap w layer) of
        None \<Rightarrow> Throws TypeError w
      | Some ops \<Rightarrow>
          andThen
            (if name ops = Some ''PET'' then resizePetLayer fit ctFusionLayer layer ops w
             else Returns () w)
            (\<lambda>u w3.
               if viewport (heap w3 layer) \<noteq> None then updateLayerSyncProps layer w3
               else Returns () w3))"

text \<open>Lines 173 to 194: the filter and the loop, without the pass of line 195.\<close>

definition resizeLoop ::
    "(Canvas \<Rightarrow> Image \<Rightarrow> real \<Rightarrow> FitScale) \<Rightarrow> ref list \<Rightarrow> world \<Rightarrow> unit outcome" where
  "resizeLoop fit allLayers w =
     andThen (filterNotPet allLayers w) (\<lambda>ctFusionLayer w1.
       forEach allLayers (resizeLoop_layer fit ctFusionLayer) w1)"

text \<open>Lines 152 to 166: the test for a fresh synchronisation and the snapshots it takes.\<close>

definition resyncCheck :: "ref list \<Rightarrow> world \<Rightarrow> unit outcome" where
  "resyncCheck allLayers w =
     (let resynced = (\<not> lastSyncViewportsState (enabledElement w) \<and> syncViewportsFlag (enabledElement w));
          w1 = w\<lparr>enabledElement := (enabledElement w)
                  \<lparr>lastSyncViewportsState := syncViewportsFlag (enabledElement w)\<rparr>\<rparr>
      in if resynced
         then forEach allLayers
                (\<lambda>layer w'. if viewport (heap w' layer) \<noteq> None then updateLayerSyncProps layer w'
                            else Returns () w') w1
         else Returns () w1)"

text \<open>Lines 204 to 213: the canvas is cleared and the visible layers are drawn.\<close>

definition clearAndRender :: "ref list \<Rightarrow> ref option \<Rightarrow> bool \<Rightarrow> world \<Rightarrow> unit outcome" where
  "clearAndRender visibleLayers activeLayer invalidated w =
     (let cv = canvas (enabledElement w);
          w1 = emit (SetTransform 1 0 0 1 0 0) w;
          w2 = emit (SetFillStyle ''black'') w1;
          w3 = emit (FillRect 0 0 (canvas_width cv) (canvas_height cv)) w2
      in renderLayers cv visibleLayers activeLayer invalidated w3)"

text \<open>
  The default export, \<^verbatim>\<open>drawCompositeImage(enabledElement, invalidated)\<close>. The enabled
  element is part of the state. The answers of the layer registry
  (\<^verbatim>\<open>getLayers\<close>, \<^verbatim>\<open>getActiveLayer\<close>, \<^verbatim>\<open>getVisibleLayers\<close> of
  \<^verbatim>\<open>../layers.js\<close>) are parameters.
\<close>

definition drawCompositeImage ::
    "(Canvas \<Rightarrow> Image \<Rightarrow> real \<Rightarrow> FitScale) \<Rightarrow> ref list \<Rightarrow> ref option \<Rightarrow> ref list \<Rightarrow> bool
       \<Rightarrow> world \<Rightarrow> unit outcome" where
  "drawCompositeImage fit allLayers activeLayer visibleLayers invalidated w =
     andThen (resyncCheck allLayers w) (\<lambda>u1 w1.
     andThen
       (if bResetPetScale allLayers w1
        then andThen (resizeLoop fit allLayers w1) (\<lambda>u2 w2.
               syncViewports visibleLayers activeLayer w2)
        else Returns () w1)
       (\<lambda>u3 w3.
     andThen
       (if syncViewportsFlag (enabledElement w3)
        then syncViewports visibleLayers activeLayer w3
        else Returns () w3)
       (\<lambda>u4 w4. clearAndRender visibleLayers activeLayer invalidated w4)))"

subsection \<open>Predicates used in the statements\<close>

text \<open>
  Layer \<open>l\<close> is in step with the active layer \<open>a\<close>: both have a snapshot and a
  viewport, and the viewport of \<open>l\<close> is the active one's, rescaled by the ratio of the
  two snapshots.
\<close>

definition Synced :: "ref \<Rightarrow> ref \<Rightarrow> world \<Rightarrow> bool" where
  "Synced a l w =
     (\<exists>sa sl va vl.
        syncProps (heap w a) = Some sa \<and> syncProps (heap w l) = Some sl \<and>
        viewport (heap w a) = Some va \<and> viewport (heap w l) = Some vl \<and>
        scale vl = scale va * (originalScale sl / originalScale sa) \<and>
        rotation vl = rotation va \<and>
        translation vl =
          \<lparr>pt_x = pt_x (translation va) / (originalScale sl / originalScale sa),
           pt_y = pt_y (translation va) / (originalScale sl / originalScale sa)\<rparr> \<and>
        hflip vl = hflip va \<and> vflip vl = vflip va)"

text \<open>Two states that differ in snapshots only.\<close>

definition sameButSyncProps :: "world \<Rightarrow> world \<Rightarrow> bool" where
  "sameButSyncProps w w' =
     (context2d w' = context2d w \<and> enabledElement w' = enabledElement w \<and>
      syncPasses w' = syncPasses w \<and>
      (\<forall>k. (heap w' k)\<lparr>syncProps := None\<rparr> = (heap w k)\<lparr>syncProps := None\<rparr>))"

text \<open>Two states in which every layer has the same image, viewport and options.\<close>

definition sameDrawInputs :: "world \<Rightarrow> world \<Rightarrow> bool" where
  "sameDrawInputs w w' =
     (\<forall>k. layer_image (heap w' k) = layer_image (heap w k) \<and>
          viewport (heap w' k) = viewport (heap w k) \<and>
          options (heap w' k) = options (heap w k))"

text \<open>
  The renderer calls in a log of the drawing context: which layer was handed to which
  renderer and, for the grayscale renderer, whether the alpha channel was requested.
\<close>

datatype renderer = LabelMap | PseudoColor | TrueColor | Grayscale bool

fun rendererOfEvent :: "draw_event \<Rightarrow> (ref \<times> renderer) option" where
  "rendererOfEvent (AddLabelMapLayer l i) = Some (l, LabelMap)"
| "rendererOfEvent (AddPseudoColorLayer l i) = Some (l, PseudoColor)"
| "rendererOfEvent (AddColorLayer l i) = Some (l, TrueColor)"
| "rendererOfEvent (AddGrayscaleLayer l i a) = Some (l, Grayscale a)"
| "rendererOfEvent e = None"

definition rendererCalls :: "draw_event list \<Rightarrow> (ref \<times> renderer) list" where
  "rendererCalls evs = List.map_filter rendererOfEvent evs"

text \<open>The values assigned to \<^verbatim>\<open>context.globalAlpha\<close> in a log, in order.\<close>

fun globalAlphaOfEvent :: "draw_event \<Rightarrow> real option" where
  "globalAlphaOfEvent (SetGlobalAlpha v) = Some v"
| "globalAlphaOfEvent e = None"

definition globalAlphaValues :: "draw_event list \<Rightarrow> real list" where
  "globalAlphaValues evs = List.map_filter globalAlphaOfEvent evs"

text \<open>
  The precedence of renderers as the specification words it: label map when a colormap
  is set and the labelmap flag is true, else pseudo colour when a colormap is set, else
  true colour when the image is flagged colour, else grayscale, which asks for the alpha
  channel at index 0. A colormap is set when the viewport has a non-empty one or, failing
  that, the options have a non-empty one.
\<close>

definition colormapSet :: "Layer \<Rightarrow> bool" where
  "colormapSet L =
     (case viewport L of
        None \<Rightarrow> False
      | Some vp \<Rightarrow>
          truthy_string (colormap vp) \<or>
          (case options L of None \<Rightarrow> False | Some ops \<Rightarrow> truthy_string (options_colormap ops)))"

definition labelmapFlag :: "Layer \<Rightarrow> bool" where
  "labelmapFlag L = (case viewport L of None \<Rightarrow> False | Some vp \<Rightarrow> labelmap vp)"

definition imageIsColor :: "Layer \<Rightarrow> bool" where
  "imageIsColor L = (case layer_image L of None \<Rightarrow> False | Some img \<Rightarrow> color img)"

fun rendererBySpec :: "bool \<Rightarrow> bool \<Rightarrow> bool \<Rightarrow> nat \<Rightarrow> renderer" where
  "rendererBySpec True True c index = LabelMap"
| "rendererBySpec True False c index = PseudoColor"
| "rendererBySpec False lm True index = TrueColor"
| "rendererBySpec False lm False index = Grayscale (index = 0)"

text \<open>
  The fusion transform as the specification lists it, in eight steps, with the three
  rotation steps (2, 4 and 6) left open: \<open>cv\<close> is the output surface, \<open>ev\<close> the
  reference frame's viewport, \<open>av\<close> and \<open>ai\<close> the active layer's viewport and image.
\<close>

definition fusionSteps ::
    "(Transform \<Rightarrow> Transform) \<Rightarrow> (Transform \<Rightarrow> Transform) \<Rightarrow> (Transform \<Rightarrow> Transform) \<Rightarrow>
     Canvas \<Rightarrow> Viewport \<Rightarrow> Viewport \<Rightarrow> Image \<Rightarrow> real \<Rightarrow> Transform" where
  "fusionSteps step2 step4 step6 cv ev av ai viewportRatio =
     (let s1 = Transform_translate Transform_new (canvas_width cv / 2) (canvas_height cv / 2);
          s2 = step2 s1;
          widthScale0 = (if rowPixelSpacing ai < columnPixelSpacing ai
                         then scale av * (columnPixelSpacing ai / rowPixelSpacing ai)
                         else scale av);
          heightScale0 = (if columnPixelSpacing ai < rowPixelSpacing ai
                          then scale av * (rowPixelSpacing ai / columnPixelSpacing ai)
                          else scale av);
          referenceHeight = pt_y (brhc (displayedArea ev)) - (pt_y (tlhc (displayedArea ev)) - 1);
          referenceWidth = pt_x (brhc (displayedArea ev)) - (pt_x (tlhc (displayedArea ev)) - 1);
          activeHeight = pt_y (brhc (displayedArea av)) - (pt_y (tlhc (displayedArea av)) - 1);
          s3 = Transform_scale s2 (widthScale0 * viewportRatio)
                 (heightScale0 * (activeHeight / referenceHeight));
          s4 = step4 s3;
          s5 = Transform_translate s4 (pt_x (translation ev)) (pt_y (translation ev));
          s6 = step6 s5;
          s7 = (if vflip ev
                then Transform_scale (if hflip ev then Transform_scale s6 (- 1) 1 else s6) 1 (- 1)
                else (if hflip ev then Transform_scale s6 (- 1) 1 else s6))
      in Transform_translate s7 (- referenceWidth / 2) (- referenceHeight / 2))"

text \<open>A rotation by \<open>\<theta>\<close> followed at once by a rotation by \<open>- \<theta>\<close>.\<close>

definition roundTrip :: "real \<Rightarrow> Transform \<Rightarrow> Transform" where
  "roundTrip \<theta> t = Transform_rotate (Transform_rotate t \<theta>) (- \<theta>)"

text \<open>Every snapshot of the first state is still there, unchanged, in the second.\<close>

definition keepsSnapshots :: "world \<Rightarrow> world \<Rightarrow> bool" where
  "keepsSnapshots w w' =
     (\<forall>k sp. syncProps (heap w k) = Some sp \<longrightarrow> syncProps (heap w' k) = Some sp)"

text \<open>
  Two states with the same enabled element, the same log of the drawing context and the
  same record of sync passes.
\<close>

definition onlyHeapChanged :: "world \<Rightarrow> world \<Rightarrow> bool" where
  "onlyHeapChanged w w' =
     (enabledElement w' = enabledElement w \<and> context2d w' = context2d w \<and>
      syncPasses w' = syncPasses w)"



subsection \<open>Example states\<close>

text \<open>
  A view of two layers on a 512 x 512 canvas. Layer 0 is a CT image of 256 columns at
  spacing 1, shown at scale 1; layer 1 is a PET image of 512 columns at spacing 0.5,
  shown at scale 2 with the colormap \<^verbatim>\<open>hot\<close>, an opacity option of 0 and a
  resize request pending. \<open>exampleFit\<close> is a fit-scale function for the parameter
  \<open>fit\<close>: the scales at which the image fills the canvas.
\<close>

definition exampleFit :: "Canvas \<Rightarrow> Image \<Rightarrow> real \<Rightarrow> FitScale" where
  "exampleFit cv img r =
     \<lparr>verticalScale = canvas_height cv / height img,
      horizontalScale = canvas_width cv / width img,
      scaleFactor = min (canvas_width cv / width img) (canvas_height cv / height img)\<rparr>"

definition emptyLayer :: Layer where
  "emptyLayer = \<lparr>layerId = [], layer_image = None, viewport = None, options = None,
                  syncProps = None, invalid = False, layer_canvas = None\<rparr>"

definition ctLayer :: Layer where
  "ctLayer =
     \<lparr>layerId = ''ct'',
      layer_image = Some \<lparr>imageId = Some ''ct:1'', width = 256, height = 256,
                          rowPixelSpacing = 1, columnPixelSpacing = 1, color = False\<rparr>,
      viewport = Some \<lparr>scale = 1, rotation = 0, translation = \<lparr>pt_x = 10, pt_y = 20\<rparr>,
                       hflip = True, vflip = False,
                       displayedArea = \<lparr>tlhc = \<lparr>pt_x = 1, pt_y = 1\<rparr>,
                                        brhc = \<lparr>pt_x = 256, pt_y = 256\<rparr>,
                                        da_columnPixelSpacing = 1\<rparr>,
                       colormap = None, labelmap = False, pixelReplication = False\<rparr>,
      options = Some \<lparr>name = Some ''CT'', reSize = False, opacity = Some 0.5, fillStyle = None,
                      options_colormap = None\<rparr>,
      syncProps = None, invalid = True, layer_canvas = None\<rparr>"

definition petLayer :: Layer where
  "petLayer =
     \<lparr>layerId = ''pet'',
      layer_image = Some \<lparr>imageId = Some ''pet:1'', width = 512, height = 512,
                          rowPixelSpacing = 1, columnPixelSpacing = 1, color = False\<rparr>,
      viewport = Some \<lparr>scale = 2, rotation = 0, translation = \<lparr>pt_x = 0, pt_y = 0\<rparr>,
                       hflip = False, vflip = False,
                       displayedArea = \<lparr>tlhc = \<lparr>pt_x = 1, pt_y = 1\<rparr>,
                                        brhc = \<lparr>pt_x = 512, pt_y = 512\<rparr>,
                                        da_columnPixelSpacing = 0.5\<rparr>,
                       colormap = Some ''hot'', labelmap = False, pixelReplication = False\<rparr>,
      options = Some \<lparr>name = Some ''PET'', reSize = True, opacity = Some 0, fillStyle = None,
                      options_colormap = None\<rparr>,
      syncProps = None, invalid = True, layer_canvas = None\<rparr>"

definition exampleElement :: EnabledElement where
  "exampleElement = \<lparr>canvas = \<lparr>canvas_width = 512, canvas_height = 512\<rparr>,
                      syncViewportsFlag = False, lastSyncViewportsState = False\<rparr>"

definition exampleWorld :: world where
  "exampleWorld = \<lparr>heap = (\<lambda>r. emptyLayer)(0 := ctLayer, 1 := petLayer),
                    enabledElement = exampleElement, context2d = [], syncPasses = []\<rparr>"

text \<open>
  The same view after the user has zoomed: the CT layer's snapshot still records the
  scale 5 of the last synchronisation while its viewport is at scale 1.
\<close>

definition staleSnapshotWorld :: world where
  "staleSnapshotWorld =
     updateLayer 0 (\<lambda>L. L\<lparr>syncProps := Some \<lparr>originalScale = 5\<rparr>\<rparr>) exampleWorld"

text \<open>The same view with synchronisation switched on, in this call and in the last.\<close>

definition syncOnWorld :: world where
  "syncOnWorld =
     exampleWorld\<lparr>enabledElement :=
       exampleElement\<lparr>syncViewportsFlag := True, lastSyncViewportsState := True\<rparr>\<rparr>"

text \<open>
  A view of two PET layers and no other: layer 1 has a resize request pending, layer 2
  is rotated by 90 degrees; both are visible, with the sync flag off and with it on.
\<close>

definition petOnlyWorld :: world where
  "petOnlyWorld =
     \<lparr>heap = (\<lambda>r. emptyLayer)
        (1 := petLayer\<lparr>options := map_option (\<lambda>p. p\<lparr>opacity := Some 0.7\<rparr>) (options petLayer)\<rparr>,
         2 := petLayer\<lparr>layerId := ''pet2'',
                viewport := map_option (\<lambda>v. v\<lparr>rotation := 90\<rparr>) (viewport petLayer),
                options := map_option (\<lambda>p. p\<lparr>reSize := False, opacity := Some 0.7\<rparr>)
                             (options petLayer)\<rparr>),
      enabledElement = exampleElement, context2d = [], syncPasses = []\<rparr>"

definition petOnlySyncOnWorld :: world where
  "petOnlySyncOnWorld =
     petOnlyWorld\<lparr>enabledElement :=
       exampleElement\<lparr>syncViewportsFlag := True, lastSyncViewportsState := True\<rparr>\<rparr>"

section \<open>Properties\<close>

subsection \<open>Loops\<close>

lemma forEach_world_invariant:
  assumes step: "\<And>a w. a \<in> set xs \<Longrightarrow> P w \<Longrightarrow> P (world_of (f a w))"
    and init: "P w"
  shows "P (world_of (forEach xs f w))"
  using assms
proof (induction xs arbitrary: w)
  case Nil
  then show ?case by simp
next
  case (Cons a as)
  have Pa: "P (world_of (f a w))" using Cons.prems by simp
  show ?case
  proof (cases "f a w")
    case (Returns u w1)
    with Pa have "P w1" by simp
    then have "P (world_of (forEach as f w1))"
      using Cons.IH Cons.prems(1) by simp
    with Returns show ?thesis by simp
  next
    case (Throws e w1)
    with Pa show ?thesis by simp
  qed
qed

lemma forEach_returns:
  assumes "\<And>a w. a \<in> set xs \<Longrightarrow> \<exists>w'. f a w = Returns () w'"
  shows "\<exists>w'. forEach xs f w = Returns () w'"
  using assms
proof (induction xs arbitrary: w)
  case Nil
  then show ?case by simp
next
  case (Cons a as)
  from Cons.prems obtain w1 where "f a w = Returns () w1" by force
  moreover have "\<exists>w'. forEach as f w1 = Returns () w'"
    using Cons.IH Cons.prems by simp
  ultimately show ?case by simp
qed

subsection \<open>Viewport synchroniser\<close>

lemmas sync_defs = syncViewports_layer_def getViewportRatio_def ensureSyncProps_def
  updateLayerSyncProps_def updateLayer_def

lemma syncViewports_layer_returns: "\<exists>w'. syncViewports_layer (Some a) l w = Returns () w'"
  by (auto simp: sync_defs split: option.splits)

lemma syncViewports_layer_viewport_active:
  "viewport (heap (world_of (syncViewports_layer (Some a) l w)) a) = viewport (heap w a)"
  by (auto simp: sync_defs split: option.splits)

lemma syncViewports_layer_viewport_other:
  "k \<noteq> l \<Longrightarrow> viewport (heap (world_of (syncViewports_layer act l w)) k) = viewport (heap w k)"
  by (auto simp: sync_defs split: option.splits)

lemma syncViewports_layer_viewport_None:
  "(viewport (heap (world_of (syncViewports_layer act l w)) k) = None) = (viewport (heap w k) = None)"
  by (auto simp: sync_defs split: option.splits)

lemma syncViewports_layer_syncProps:
  "syncProps (heap w k) = Some sp \<Longrightarrow>
   syncProps (heap (world_of (syncViewports_layer act l w)) k) = Some sp"
  by (auto simp: sync_defs split: option.splits)

lemma syncViewports_layer_establish:
  "l \<noteq> a \<Longrightarrow> viewport (heap w l) \<noteq> None \<Longrightarrow> viewport (heap w a) \<noteq> None \<Longrightarrow>
   Synced a l (world_of (syncViewports_layer (Some a) l w))"
  by (auto simp: sync_defs Synced_def split: option.splits)

lemma Synced_viewports:
  "Synced a l w \<Longrightarrow> viewport (heap w l) \<noteq> None \<and> viewport (heap w a) \<noteq> None"
  by (auto simp: Synced_def)

lemma syncViewports_layer_preserve:
  assumes "Synced a l w" and "l \<noteq> a"
  shows "Synced a l (world_of (syncViewports_layer (Some a) k w))"
proof (cases "k = l")
  case True
  then show ?thesis
    using assms Synced_viewports syncViewports_layer_establish by blast
next
  case False
  then have "viewport (heap (world_of (syncViewports_layer (Some a) k w)) l) = viewport (heap w l)"
    using syncViewports_layer_viewport_other by simp
  moreover have "viewport (heap (world_of (syncViewports_layer (Some a) k w)) a) = viewport (heap w a)"
    by (rule syncViewports_layer_viewport_active)
  ultimately show ?thesis
    using assms(1) syncViewports_layer_syncProps unfolding Synced_def by fastforce
qed

lemma syncViewports_loop_Synced:
  assumes "l \<in> set layers" and "l \<noteq> a"
    and "viewport (heap w l) \<noteq> None" and "viewport (heap w a) \<noteq> None"
  shows "Synced a l (world_of (syncViewports_loop layers (Some a) w))"
  using assms
proof (induction layers arbitrary: w)
  case Nil
  then show ?case by simp
next
  case (Cons k ks)
  obtain w1 where w1: "syncViewports_layer (Some a) k w = Returns () w1"
    using syncViewports_layer_returns by blast
  then have w1': "w1 = world_of (syncViewports_layer (Some a) k w)" by simp
  have step: "syncViewports_loop (k # ks) (Some a) w = syncViewports_loop ks (Some a) w1"
    using w1 by (simp add: syncViewports_loop_def)
  show ?case
  proof (cases "k = l")
    case True
    have "Synced a l w1"
      unfolding w1' True[symmetric]
      using syncViewports_layer_establish Cons.prems True by blast
    then have "Synced a l (world_of (forEach ks (syncViewports_layer (Some a)) w1))"
      using syncViewports_layer_preserve[OF _ Cons.prems(2)]
      by (intro forEach_world_invariant[where P="Synced a l"]) auto
    then show ?thesis using step by (simp add: syncViewports_loop_def)
  next
    case False
    then have "l \<in> set ks" using Cons.prems by simp
    moreover have "viewport (heap w1 l) \<noteq> None" "viewport (heap w1 a) \<noteq> None"
      unfolding w1' using Cons.prems(3,4) by (simp_all add: syncViewports_layer_viewport_None)
    ultimately show ?thesis using Cons.IH Cons.prems(2) step by simp
  qed
qed

lemma syncViewports_loop_returns: "\<exists>w'. syncViewports_loop layers (Some a) w = Returns () w'"
  unfolding syncViewports_loop_def by (rule forEach_returns) (rule syncViewports_layer_returns)

lemma syncViewports_loop_viewport_active:
  "viewport (heap (world_of (syncViewports_loop layers (Some a) w)) a) = viewport (heap w a)"
  unfolding syncViewports_loop_def
  by (rule forEach_world_invariant[where P="\<lambda>w'. viewport (heap w' a) = viewport (heap w a)"])
     (simp_all add: syncViewports_layer_viewport_active)

lemma syncViewports_Synced:
  assumes "l \<in> set layers" and "l \<noteq> a"
    and "viewport (heap w l) \<noteq> None" and "viewport (heap w a) \<noteq> None"
  shows "Synced a l (world_of (syncViewports layers (Some a) w))"
  unfolding syncViewports_def using assms by (intro syncViewports_loop_Synced) simp_all

lemma syncViewports_returns: "\<exists>w'. syncViewports layers (Some a) w = Returns () w'"
  unfolding syncViewports_def by (rule syncViewports_loop_returns)

lemma syncViewports_viewport_active:
  "viewport (heap (world_of (syncViewports layers (Some a) w)) a) = viewport (heap w a)"
  unfolding syncViewports_def using syncViewports_loop_viewport_active[of layers a] by simp

lemma getViewportRatio_pure:
  "syncProps (heap w b) = Some sb \<Longrightarrow> syncProps (heap w t) = Some st \<Longrightarrow>
   getViewportRatio b t w = Returns (originalScale st / originalScale sb) w"
  by (simp add: getViewportRatio_def ensureSyncProps_def)

text \<open>
  Claim C1. \<^verbatim>\<open>syncViewports(layers, activeLayer)\<close> returns, and afterwards every layer
  \<open>l\<close> of the list other than the active layer \<open>a\<close>, where both have a viewport, has
  with \<open>r = getViewportRatio(a, l)\<close>: scale equal to the active scale times \<open>r\<close>, the
  active layer's rotation, the active layer's translation divided by \<open>r\<close> in both
  components, and the active layer's two flip flags. The active layer's viewport is the
  one it had before the call.
\<close>

theorem syncViewports_synchronises:
  assumes "l \<in> set layers" and "l \<noteq> a"
    and "viewport (heap w l) \<noteq> None" and "viewport (heap w a) \<noteq> None"
  shows "\<exists>w' r va vl.
           syncViewports layers (Some a) w = Returns () w' \<and>
           getViewportRatio a l w' = Returns r w' \<and>
           viewport (heap w a) = Some va \<and> viewport (heap w' a) = Some va \<and>
           viewport (heap w' l) = Some vl \<and>
           scale vl = scale va * r \<and>
           rotation vl = rotation va \<and>
           pt_x (translation vl) = pt_x (translation va) / r \<and>
           pt_y (translation vl) = pt_y (translation va) / r \<and>
           hflip vl = hflip va \<and> vflip vl = vflip va"
proof -
  obtain w' where ret: "syncViewports layers (Some a) w = Returns () w'"
    using syncViewports_returns by blast
  then have w': "w' = world_of (syncViewports layers (Some a) w)" by simp
  have "Synced a l w'" unfolding w' using assms by (rule syncViewports_Synced)
  then obtain sa sl va vl where s:
    "syncProps (heap w' a) = Some sa" "syncProps (heap w' l) = Some sl"
    "viewport (heap w' a) = Some va" "viewport (heap w' l) = Some vl"
    "scale vl = scale va * (originalScale sl / originalScale sa)"
    "rotation vl = rotation va"
    "translation vl = \<lparr>pt_x = pt_x (translation va) / (originalScale sl / originalScale sa),
                        pt_y = pt_y (translation va) / (originalScale sl / originalScale sa)\<rparr>"
    "hflip vl = hflip va" "vflip vl = vflip va"
    unfolding Synced_def by blast
  have ratio: "getViewportRatio a l w' = Returns (originalScale sl / originalScale sa) w'"
    using s(1,2) by (rule getViewportRatio_pure)
  have va: "viewport (heap w a) = Some va"
    using syncViewports_viewport_active[of layers a w] s(3) unfolding w' by simp
  show ?thesis
    using ret ratio va s(3-9)
    by (intro exI[of _ w'] exI[of _ "originalScale sl / originalScale sa"]
              exI[of _ va] exI[of _ vl]) simp
qed

theorem syncViewports_synchronises_witness:
  "(1::nat) \<in> set [0, 1] \<and> (1::nat) \<noteq> 0 \<and>
   viewport (heap exampleWorld 1) \<noteq> None \<and> viewport (heap exampleWorld 0) \<noteq> None \<and>
   (\<exists>w' r va vl.
      syncViewports [0, 1] (Some 0) exampleWorld = Returns () w' \<and>
      getViewportRatio 0 1 w' = Returns r w' \<and>
      viewport (heap exampleWorld 0) = Some va \<and> viewport (heap w' 0) = Some va \<and>
      viewport (heap w' 1) = Some vl \<and>
      scale vl = scale va * r \<and>
      rotation vl = rotation va \<and>
      pt_x (translation vl) = pt_x (translation va) / r \<and>
      pt_y (translation vl) = pt_y (translation va) / r \<and>
      hflip vl = hflip va \<and> vflip vl = vflip va)"
proof -
  have h: "(1::nat) \<in> set [0, 1]" "(1::nat) \<noteq> 0"
    "viewport (heap exampleWorld 1) \<noteq> None" "viewport (heap exampleWorld 0) \<noteq> None"
    by (simp_all add: exampleWorld_def ctLayer_def petLayer_def)
  show ?thesis
    using h syncViewports_synchronises[OF h] by blast
qed

subsection \<open>Layer rescaler\<close>

text \<open>
  Claim C2. For a base layer and a target layer with different identifiers, whose images
  both have a source identifier (and which both have a viewport),
  \<^verbatim>\<open>rescaleImage(base, target)\<close> returns and leaves the target's viewport with
  only its scale changed, to \<open>baseScale * ratio\<close> where
  \<open>ratio = (targetScale / baseScale) * colRelative\<close> and \<open>colRelative\<close> is
  (target column spacing * target width) / (base column spacing * base width). With base
  scale 1, target scale 2, target spacing 0.5 and width 512, base spacing 1 and width
  256, the new target scale is 2.
\<close>

theorem rescaleImage_scale:
  assumes "layerId (heap w b) \<noteq> layerId (heap w t)"
    and "layer_image (heap w b) = Some bi" and "layer_image (heap w t) = Some ti"
    and "truthy_string (imageId bi)" and "truthy_string (imageId ti)"
    and "viewport (heap w b) = Some bv" and "viewport (heap w t) = Some tv"
  shows "\<exists>w' tv'.
           rescaleImage (Some b) t w = Returns () w' \<and>
           viewport (heap w' t) = Some tv' \<and>
           tv' = tv\<lparr>scale := scale bv * (scale tv / scale bv *
                   ((da_columnPixelSpacing (displayedArea tv) * width ti) /
                    (da_columnPixelSpacing (displayedArea bv) * width bi)))\<rparr> \<and>
           (scale bv = 1 \<and> scale tv = 2 \<and>
            da_columnPixelSpacing (displayedArea tv) = 0.5 \<and> width ti = 512 \<and>
            da_columnPixelSpacing (displayedArea bv) = 1 \<and> width bi = 256
              \<longrightarrow> scale tv' = 2)"
  using assms by (auto simp: rescaleImage_def updateLayer_def Let_def)

theorem rescaleImage_scale_witness:
  "map_option scale (viewport (heap exampleWorld 0)) = Some 1 \<and>
   map_option scale (viewport (heap exampleWorld 1)) = Some 2 \<and>
   (\<exists>w' tv'. rescaleImage (Some 0) 1 exampleWorld = Returns () w' \<and>
              viewport (heap w' 1) = Some tv' \<and> scale tv' = 2)"
proof -
  have h: "layerId (heap exampleWorld 0) \<noteq> layerId (heap exampleWorld 1)"
    "layer_image (heap exampleWorld 0) = Some (the (layer_image ctLayer))"
    "layer_image (heap exampleWorld 1) = Some (the (layer_image petLayer))"
    "truthy_string (imageId (the (layer_image ctLayer)))"
    "truthy_string (imageId (the (layer_image petLayer)))"
    "viewport (heap exampleWorld 0) = Some (the (viewport ctLayer))"
    "viewport (heap exampleWorld 1) = Some (the (viewport petLayer))"
    by (simp_all add: exampleWorld_def ctLayer_def petLayer_def)
  have v: "scale (the (viewport ctLayer)) = 1" "scale (the (viewport petLayer)) = 2"
    "da_columnPixelSpacing (displayedArea (the (viewport petLayer))) = 0.5"
    "width (the (layer_image petLayer)) = 512"
    "da_columnPixelSpacing (displayedArea (the (viewport ctLayer))) = 1"
    "width (the (layer_image ctLayer)) = 256"
    by (simp_all add: ctLayer_def petLayer_def)
  from rescaleImage_scale[OF h] obtain w' tv' where r:
    "rescaleImage (Some 0) 1 exampleWorld = Returns () w'" "viewport (heap w' 1) = Some tv'"
    "scale (the (viewport ctLayer)) = 1 \<and> scale (the (viewport petLayer)) = 2 \<and>
     da_columnPixelSpacing (displayedArea (the (viewport petLayer))) = 0.5 \<and>
     width (the (layer_image petLayer)) = 512 \<and>
     da_columnPixelSpacing (displayedArea (the (viewport ctLayer))) = 1 \<and>
     width (the (layer_image ctLayer)) = 256 \<longrightarrow> scale tv' = 2"
    by blast
  then have "scale tv' = 2" using v by blast
  then show ?thesis using r(1,2) h(6,7) v(1,2) by auto
qed

text \<open>
  Claim C3. \<^verbatim>\<open>rescaleImage(A, A)\<close> throws the error of line 304 for every layer
  \<open>A\<close>, in every state, and throws it before anything is changed: the outcome is never
  a return.
\<close>

theorem rescaleImage_same_layer:
  "rescaleImage (Some a) a w =
     Throws (Error ''rescaleImage: both arguments represent the same layer'') w"
  by (simp add: rescaleImage_def)

theorem rescaleImage_same_layer_witness:
  "rescaleImage (Some 1) 1 exampleWorld =
     Throws (Error ''rescaleImage: both arguments represent the same layer'') exampleWorld"
  by (rule rescaleImage_same_layer)

text \<open>
  Claim C4. For two layers with different identifiers that both have an image, if either
  image has no source identifier then \<^verbatim>\<open>rescaleImage(A, B)\<close> returns and the state,
  so also the viewport of \<open>B\<close>, is as it was.
\<close>

theorem rescaleImage_without_imageId:
  assumes "layerId (heap w a) \<noteq> layerId (heap w b)"
    and "layer_image (heap w a) = Some ia" and "layer_image (heap w b) = Some ib"
    and "\<not> truthy_string (imageId ia) \<or> \<not> truthy_string (imageId ib)"
  shows "rescaleImage (Some a) b w = Returns () w"
  using assms by (auto simp: rescaleImage_def)

theorem rescaleImage_without_imageId_witness:
  "rescaleImage (Some 0) 1
     (updateLayer 1 (\<lambda>L. L\<lparr>layer_image := map_option (\<lambda>i. i\<lparr>imageId := None\<rparr>) (layer_image L)\<rparr>)
        exampleWorld) =
   Returns ()
     (updateLayer 1 (\<lambda>L. L\<lparr>layer_image := map_option (\<lambda>i. i\<lparr>imageId := None\<rparr>) (layer_image L)\<rparr>)
        exampleWorld)"
  by (rule rescaleImage_without_imageId[where
        ia = "the (layer_image ctLayer)" and
        ib = "(the (layer_image petLayer))\<lparr>imageId := None\<rparr>"])
     (simp_all add: exampleWorld_def ctLayer_def petLayer_def updateLayer_def)

subsection \<open>What the snapshot functions leave unchanged\<close>

lemma sameButSyncProps_refl: "sameButSyncProps w w"
  by (simp add: sameButSyncProps_def)

lemma sameButSyncProps_trans:
  "sameButSyncProps w w1 \<Longrightarrow> sameButSyncProps w1 w2 \<Longrightarrow> sameButSyncProps w w2"
  by (simp add: sameButSyncProps_def)

lemma sameButSyncProps_fields:
  assumes "sameButSyncProps w w'"
  shows "layer_image (heap w' k) = layer_image (heap w k)"
    and "viewport (heap w' k) = viewport (heap w k)"
    and "options (heap w' k) = options (heap w k)"
    and "invalid (heap w' k) = invalid (heap w k)"
    and "layer_canvas (heap w' k) = layer_canvas (heap w k)"
    and "layerId (heap w' k) = layerId (heap w k)"
proof -
  have eq: "(heap w' k)\<lparr>syncProps := None\<rparr> = (heap w k)\<lparr>syncProps := None\<rparr>"
    using assms by (simp add: sameButSyncProps_def)
  show "layer_image (heap w' k) = layer_image (heap w k)"
    using arg_cong[OF eq, of layer_image] by simp
  show "viewport (heap w' k) = viewport (heap w k)"
    using arg_cong[OF eq, of viewport] by simp
  show "options (heap w' k) = options (heap w k)"
    using arg_cong[OF eq, of options] by simp
  show "invalid (heap w' k) = invalid (heap w k)"
    using arg_cong[OF eq, of invalid] by simp
  show "layer_canvas (heap w' k) = layer_canvas (heap w k)"
    using arg_cong[OF eq, of layer_canvas] by simp
  show "layerId (heap w' k) = layerId (heap w k)"
    using arg_cong[OF eq, of layerId] by simp
qed

lemma updateLayerSyncProps_same: "sameButSyncProps w (world_of (updateLayerSyncProps l w))"
  by (simp add: updateLayerSyncProps_def updateLayer_def sameButSyncProps_def split: option.splits)

lemma ensureSyncProps_same: "sameButSyncProps w (world_of (ensureSyncProps l w))"
  by (simp add: ensureSyncProps_def updateLayerSyncProps_same sameButSyncProps_refl split: option.splits)

lemma andThen_world_invariant:
  assumes "R w (world_of m)" and "\<And>a w1. m = Returns a w1 \<Longrightarrow> R w (world_of (f a w1))"
  shows "R w (world_of (andThen m f))"
  using assms by (cases m) simp_all

lemma andThen_rel:
  assumes trans: "\<And>x y z. R x y \<Longrightarrow> R y z \<Longrightarrow> R x z"
    and "R w (world_of m)"
    and "\<And>a w1. m = Returns a w1 \<Longrightarrow> R w1 (world_of (f a w1))"
  shows "R w (world_of (andThen m f))"
proof (cases m)
  case (Returns a w1)
  then have "R w w1" "R w1 (world_of (f a w1))" using assms(2,3) by simp_all
  then have "R w (world_of (f a w1))" by (rule trans)
  then show ?thesis using Returns by simp
next
  case (Throws e w1)
  then show ?thesis using assms(2) by simp
qed

lemma getViewportRatio_same: "sameButSyncProps w (world_of (getViewportRatio b t w))"
  unfolding getViewportRatio_def
proof (rule andThen_world_invariant[where R=sameButSyncProps])
  show "sameButSyncProps w (world_of (ensureSyncProps b w))" by (rule ensureSyncProps_same)
next
  fix a w1 assume 1: "ensureSyncProps b w = Returns a w1"
  have s1: "sameButSyncProps w w1" using ensureSyncProps_same[of w b] 1 by simp
  show "sameButSyncProps w (world_of (andThen (ensureSyncProps t w1) (\<lambda>u2 w2.
       (case (syncProps (heap w2 t), syncProps (heap w2 b)) of
          (Some t, Some b) \<Rightarrow> Returns (originalScale t / originalScale b) w2
        | (t, b) \<Rightarrow> Throws TypeError w2))))"
  proof (rule andThen_world_invariant[where R=sameButSyncProps])
    show "sameButSyncProps w (world_of (ensureSyncProps t w1))"
      using s1 ensureSyncProps_same sameButSyncProps_trans by blast
  next
    fix a2 w2 assume 2: "ensureSyncProps t w1 = Returns a2 w2"
    have "sameButSyncProps w1 w2" using ensureSyncProps_same[of w1 t] 2 by simp
    then have "sameButSyncProps w w2" using s1 sameButSyncProps_trans by blast
    then show "sameButSyncProps w (world_of (case (syncProps (heap w2 t), syncProps (heap w2 b)) of
          (Some t, Some b) \<Rightarrow> Returns (originalScale t / originalScale b) w2
        | (t, b) \<Rightarrow> Throws TypeError w2))"
      by (simp split: option.splits)
  qed
qed

lemma calculatePetFuisonTransform_same:
  "sameButSyncProps w (world_of (calculatePetFuisonTransform e act w))"
proof -
  have g: "\<And>a. sameButSyncProps w (world_of (getViewportRatio a e w))"
    by (rule getViewportRatio_same)
  have r: "\<And>a f. sameButSyncProps w (world_of (andThen (getViewportRatio a e w) (\<lambda>r w'. Returns (f r) w')))"
    subgoal for a f using g[of a] by (cases "getViewportRatio a e w") simp_all
    done
  show ?thesis
    unfolding calculatePetFuisonTransform_def Let_def
    by (simp add: sameButSyncProps_refl r split: option.splits)
qed

lemma sameDrawInputs_refl: "sameDrawInputs w w"
  by (simp add: sameDrawInputs_def)

lemma sameDrawInputs_trans:
  "sameDrawInputs w w1 \<Longrightarrow> sameDrawInputs w1 w2 \<Longrightarrow> sameDrawInputs w w2"
  by (simp add: sameDrawInputs_def)

lemma sameButSyncProps_sameDrawInputs: "sameButSyncProps w w' \<Longrightarrow> sameDrawInputs w w'"
  by (simp add: sameDrawInputs_def sameButSyncProps_fields)

lemma sameDrawInputs_emit: "sameDrawInputs w (emit ev w)"
  by (simp add: sameDrawInputs_def emit_def)

lemma sameDrawInputs_applyFillStyle: "sameDrawInputs w (applyFillStyle opts w)"
  by (simp add: sameDrawInputs_def applyFillStyle_def emit_def split: option.splits)

lemma sameDrawInputs_canvas:
  "sameDrawInputs w (updateLayer l (\<lambda>L. L\<lparr>layer_canvas := c\<rparr>) w)"
  by (simp add: sameDrawInputs_def updateLayer_def)

lemma sameDrawInputs_invalid:
  "sameDrawInputs w (updateLayer l (\<lambda>L. L\<lparr>invalid := b\<rparr>) w)"
  by (simp add: sameDrawInputs_def updateLayer_def)

lemma layerColormap_world: "world_of (layerColormap vp opts w) = w"
  by (simp add: layerColormap_def split: option.splits)

subsection \<open>Fusion transform calculator\<close>

lemma Transform_rotate_zero: "Transform_rotate t 0 = t"
  by (simp add: Transform_rotate_def)

lemma cos_sin_square_sum: "(a::real) * cos x * cos x + a * sin x * sin x = a"
proof -
  have "a * cos x * cos x + a * sin x * sin x = a * (cos x * cos x + sin x * sin x)"
    by (simp only: distrib_left mult.assoc)
  also have "\<dots> = a"
    by (simp only: sin_cos_squared_add3 mult_1_right)
  finally show ?thesis .
qed

lemma Transform_rotate_round_trip: "Transform_rotate (Transform_rotate t \<theta>) (- \<theta>) = t"
proof -
  have a: "(m0 t * cos \<theta> + m2 t * sin \<theta>) * cos \<theta> + (m0 t * - sin \<theta> + m2 t * cos \<theta>) * - sin \<theta> = m0 t"
    using cos_sin_square_sum[of "m0 t" \<theta>] by (simp add: algebra_simps)
  have b: "(m1 t * cos \<theta> + m3 t * sin \<theta>) * cos \<theta> + (m1 t * - sin \<theta> + m3 t * cos \<theta>) * - sin \<theta> = m1 t"
    using cos_sin_square_sum[of "m1 t" \<theta>] by (simp add: algebra_simps)
  have c: "(m0 t * cos \<theta> + m2 t * sin \<theta>) * - (- sin \<theta>) + (m0 t * - sin \<theta> + m2 t * cos \<theta>) * cos \<theta> = m2 t"
    using cos_sin_square_sum[of "m2 t" \<theta>] by (simp add: algebra_simps)
  have d: "(m1 t * cos \<theta> + m3 t * sin \<theta>) * - (- sin \<theta>) + (m1 t * - sin \<theta> + m3 t * cos \<theta>) * cos \<theta> = m3 t"
    using cos_sin_square_sum[of "m3 t" \<theta>] by (simp add: algebra_simps)
  show ?thesis
    unfolding Transform_rotate_def Let_def
    by (simp only: Transform.simps cos_minus sin_minus a b c d) simp
qed

lemma getViewportRatio_returns:
  "viewport (heap w b) \<noteq> None \<Longrightarrow> viewport (heap w t) \<noteq> None \<Longrightarrow>
   \<exists>r w'. getViewportRatio b t w = Returns r w'"
  by (auto simp: getViewportRatio_def ensureSyncProps_def updateLayerSyncProps_def updateLayer_def
      split: option.splits)

lemma calculatePetFuisonTransform_steps:
  assumes "viewport (heap w e) = Some ev" 
    and "layer_canvas (heap w e) = Some cv"
    and "viewport (heap w a) = Some av" and "layer_image (heap w a) = Some ai"
    and "getViewportRatio a e w = Returns r w'"
  shows "calculatePetFuisonTransform e (Some a) w =
           Returns (fusionSteps (\<lambda>t. Transform_rotate t (rotation ev * pi / 180))
                                (\<lambda>t. Transform_rotate t (- rotation ev * pi / 180))
                                (\<lambda>t. Transform_rotate t (rotation ev * pi / 180)) cv ev av ai r) w'"
  using assms
  by (simp add: calculatePetFuisonTransform_def fusionSteps_def Let_def Transform_rotate_zero)

text \<open>
  Claim C7. For a reference frame with rotation 0, drawn over an active layer that has a
  viewport and an image, \<^verbatim>\<open>calculatePetFuisonTransform\<close> returns, and the matrix it
  returns is the one of the eight steps with nothing done at steps 2, 4 and 6 (the
  short-circuit), is the one with a rotation by any \<open>\<theta>\<close> followed at once by \<open>- \<theta>\<close> at
  each of these steps, and is the one with the rotation by the angle 0 multiplied in.
  All six coefficients agree, so the translation and scale parts do. Numbers are reals
  here: the equalities are exact.
\<close>

theorem calculatePetFuisonTransform_zero_rotation:
  assumes "viewport (heap w e) = Some ev" and "rotation ev = 0"
    and "layer_canvas (heap w e) = Some cv"
    and "viewport (heap w a) = Some av" and "layer_image (heap w a) = Some ai"
  shows "\<exists>r w'.
           getViewportRatio a e w = Returns r w' \<and>
           calculatePetFuisonTransform e (Some a) w =
             Returns (fusionSteps (\<lambda>t. t) (\<lambda>t. t) (\<lambda>t. t) cv ev av ai r) w' \<and>
           fusionSteps (\<lambda>t. t) (\<lambda>t. t) (\<lambda>t. t) cv ev av ai r =
             fusionSteps (roundTrip \<theta>) (roundTrip \<theta>) (roundTrip \<theta>) cv ev av ai r \<and>
           fusionSteps (\<lambda>t. t) (\<lambda>t. t) (\<lambda>t. t) cv ev av ai r =
             fusionSteps (\<lambda>t. Transform_rotate t (rotation ev * pi / 180))
                         (\<lambda>t. Transform_rotate t (- rotation ev * pi / 180))
                         (\<lambda>t. Transform_rotate t (rotation ev * pi / 180)) cv ev av ai r"
proof -
  obtain r w' where r: "getViewportRatio a e w = Returns r w'"
    using getViewportRatio_returns[of w a e] assms(1,4) by auto
  have rt: "roundTrip \<theta> = (\<lambda>t. t)"
    by (simp add: fun_eq_iff roundTrip_def Transform_rotate_round_trip)
  have z: "(\<lambda>t. Transform_rotate t (rotation ev * pi / 180)) = (\<lambda>t. t)"
    "(\<lambda>t. Transform_rotate t (- rotation ev * pi / 180)) = (\<lambda>t. t)"
    using assms(2) by (simp_all add: fun_eq_iff Transform_rotate_zero)
  have "calculatePetFuisonTransform e (Some a) w =
          Returns (fusionSteps (\<lambda>t. t) (\<lambda>t. t) (\<lambda>t. t) cv ev av ai r) w'"
    using calculatePetFuisonTransform_steps[OF assms(1,3,4,5) r] unfolding z .
  then show ?thesis using r unfolding rt z by blast
qed

theorem calculatePetFuisonTransform_zero_rotation_witness:
  "\<exists>r w'.
     getViewportRatio 0 1
       (updateLayer 1 (\<lambda>L. L\<lparr>layer_canvas := Some (canvas exampleElement)\<rparr>) exampleWorld) =
       Returns r w' \<and>
     calculatePetFuisonTransform 1 (Some 0)
       (updateLayer 1 (\<lambda>L. L\<lparr>layer_canvas := Some (canvas exampleElement)\<rparr>) exampleWorld) =
       Returns (fusionSteps (\<lambda>t. t) (\<lambda>t. t) (\<lambda>t. t) (canvas exampleElement)
                  (the (viewport petLayer)) (the (viewport ctLayer)) (the (layer_image ctLayer)) r) w' \<and>
     fusionSteps (\<lambda>t. t) (\<lambda>t. t) (\<lambda>t. t) (canvas exampleElement)
         (the (viewport petLayer)) (the (viewport ctLayer)) (the (layer_image ctLayer)) r =
       fusionSteps (roundTrip (pi / 3)) (roundTrip (pi / 3)) (roundTrip (pi / 3)) (canvas exampleElement)
         (the (viewport petLayer)) (the (viewport ctLayer)) (the (layer_image ctLayer)) r \<and>
     fusionSteps (\<lambda>t. t) (\<lambda>t. t) (\<lambda>t. t) (canvas exampleElement)
         (the (viewport petLayer)) (the (viewport ctLayer)) (the (layer_image ctLayer)) r =
       fusionSteps (\<lambda>t. Transform_rotate t (rotation (the (viewport petLayer)) * pi / 180))
                   (\<lambda>t. Transform_rotate t (- rotation (the (viewport petLayer)) * pi / 180))
                   (\<lambda>t. Transform_rotate t (rotation (the (viewport petLayer)) * pi / 180))
         (canvas exampleElement)
         (the (viewport petLayer)) (the (viewport ctLayer)) (the (layer_image ctLayer)) r"
proof -
  let ?w = "updateLayer 1 (\<lambda>L. L\<lparr>layer_canvas := Some (canvas exampleElement)\<rparr>) exampleWorld"
  have h: "viewport (heap ?w 1) = Some (the (viewport petLayer))"
    "rotation (the (viewport petLayer)) = 0"
    "layer_canvas (heap ?w 1) = Some (canvas exampleElement)"
    "viewport (heap ?w 0) = Some (the (viewport ctLayer))"
    "layer_image (heap ?w 0) = Some (the (layer_image ctLayer))"
    by (simp_all add: updateLayer_def exampleWorld_def ctLayer_def petLayer_def)
  show ?thesis
    by (rule calculatePetFuisonTransform_zero_rotation[OF h])
qed

subsection \<open>Layer rasteriser and per-layer drawing\<close>

lemma rasterizeAndDraw_sameDrawInputs:
  "sameDrawInputs w (world_of (rasterizeAndDraw i l img invd w))"
proof (cases "viewport (heap w l)")
  case None
  then show ?thesis by (simp add: rasterizeAndDraw_def sameDrawInputs_refl)
next
  case vp: (Some vp)
  show ?thesis
  proof (cases "layerColormap vp (options (heap w l)) w")
    case (Returns cm w4)
    then have "w4 = w" using layerColormap_world[of vp "options (heap w l)" w] by simp
    then show ?thesis using vp Returns
      by (simp add: rasterizeAndDraw_def Let_def sameDrawInputs_def updateLayer_def emit_def
            applyFillStyle_def split: option.splits)
  next
    case (Throws e w4)
    then have "w4 = w" using layerColormap_world[of vp "options (heap w l)" w] by simp
    then show ?thesis using vp Throws by (simp add: rasterizeAndDraw_def sameDrawInputs_refl)
  qed
qed

lemma applyFillStyle_log:
  "\<exists>fill. (fill = [] \<or> (\<exists>s. fill = [SetFillStyle s])) \<and>
          applyFillStyle opts w = w\<lparr>context2d := context2d w @ fill\<rparr>"
  by (auto simp: applyFillStyle_def emit_def split: option.splits)

lemma rasterizeAndDraw_log:
  assumes "rasterizeAndDraw i l img invd w = Returns () w'"
  shows "\<exists>vp cm fill.
           viewport (heap w l) = Some vp \<and>
           (if truthy_string (colormap vp) then cm = colormap vp
            else \<exists>ops. options (heap w l) = Some ops \<and> cm = options_colormap ops) \<and>
           (fill = [] \<or> (\<exists>s. fill = [SetFillStyle s])) \<and>
           context2d w' = context2d w @
             [rasterize l i cm (labelmap vp) img (invalid (heap w l) \<or> invd),
              SetGlobalAlpha (globalAlpha (options (heap w l)))] @ fill @
             [SetImageSmoothingEnabled (\<not> pixelReplication vp),
              SetMozImageSmoothingEnabled (\<not> pixelReplication vp),
              DrawImage l (pt_x (tlhc (displayedArea vp)) - 1) (pt_y (tlhc (displayedArea vp)) - 1)
                (pt_x (brhc (displayedArea vp)) - (pt_x (tlhc (displayedArea vp)) - 1))
                (pt_y (brhc (displayedArea vp)) - (pt_y (tlhc (displayedArea vp)) - 1)) 0 0
                (pt_x (brhc (displayedArea vp)) - (pt_x (tlhc (displayedArea vp)) - 1))
                (pt_y (brhc (displayedArea vp)) - (pt_y (tlhc (displayedArea vp)) - 1)),
              Restore]"
proof -
  from assms obtain vp where vp: "viewport (heap w l) = Some vp"
    by (auto simp: rasterizeAndDraw_def split: option.splits)
  from assms vp obtain cm where cm: "layerColormap vp (options (heap w l)) w = Returns cm w"
    using layerColormap_world[of vp "options (heap w l)" w]
    by (cases "layerColormap vp (options (heap w l)) w") (auto simp: rasterizeAndDraw_def)
  have cmv: "if truthy_string (colormap vp) then cm = colormap vp
            else \<exists>ops. options (heap w l) = Some ops \<and> cm = options_colormap ops"
    using cm by (auto simp: layerColormap_def split: option.splits if_splits)
  define w5 where "w5 = emit (rasterize l i cm (labelmap vp) img (invalid (heap w l) \<or> invd)) w"
  define w6 where "w6 = emit (SetGlobalAlpha (globalAlpha (options (heap w l)))) w5"
  obtain fill where fill: "fill = [] \<or> (\<exists>s. fill = [SetFillStyle s])"
    "applyFillStyle (options (heap w l)) w6 = w6\<lparr>context2d := context2d w6 @ fill\<rparr>"
    using applyFillStyle_log by blast
  have "context2d w' = context2d w @
             [rasterize l i cm (labelmap vp) img (invalid (heap w l) \<or> invd),
              SetGlobalAlpha (globalAlpha (options (heap w l)))] @ fill @
             [SetImageSmoothingEnabled (\<not> pixelReplication vp),
              SetMozImageSmoothingEnabled (\<not> pixelReplication vp),
              DrawImage l (pt_x (tlhc (displayedArea vp)) - 1) (pt_y (tlhc (displayedArea vp)) - 1)
                (pt_x (brhc (displayedArea vp)) - (pt_x (tlhc (displayedArea vp)) - 1))
                (pt_y (brhc (displayedArea vp)) - (pt_y (tlhc (displayedArea vp)) - 1)) 0 0
                (pt_x (brhc (displayedArea vp)) - (pt_x (tlhc (displayedArea vp)) - 1))
                (pt_y (brhc (displayedArea vp)) - (pt_y (tlhc (displayedArea vp)) - 1)),
              Restore]"
    using assms vp cm fill(2)
    by (auto simp: rasterizeAndDraw_def Let_def w5_def w6_def emit_def updateLayer_def)
  then show ?thesis using vp cmv fill(1) by blast
qed

lemma applyLayerTransform_Returns:
  assumes "applyLayerTransform l act iid w = Returns () w'"
  shows "\<exists>tr w2. sameButSyncProps w w2 \<and> w' = emit tr w2 \<and>
           (tr = SetToPixelCoordinateSystem l \<or> (\<exists>a b c d e f. tr = SetTransform a b c d e f))"
proof (cases "isNonAxialPetMpr iid")
  case True
  with assms obtain t w2 where c: "calculatePetFuisonTransform l act w = Returns t w2"
    and w': "w' = emit (SetTransform (m0 t) (m1 t) (m2 t) (m3 t) (m4 t) (m5 t)) w2"
    by (cases "calculatePetFuisonTransform l act w") (auto simp: applyLayerTransform_def)
  have "sameButSyncProps w w2" using calculatePetFuisonTransform_same[of w l act] c by simp
  then show ?thesis using w' by blast
next
  case False
  with assms have "w' = emit (SetToPixelCoordinateSystem l) w"
    by (simp add: applyLayerTransform_def)
  then show ?thesis using sameButSyncProps_refl by blast
qed

lemma applyLayerTransform_sameDrawInputs:
  "sameDrawInputs w (world_of (applyLayerTransform l act iid w))"
proof (cases "isNonAxialPetMpr iid")
  case True
  have "sameDrawInputs w (world_of (andThen (calculatePetFuisonTransform l act w) (\<lambda>t w2.
           Returns () (emit (SetTransform (m0 t) (m1 t) (m2 t) (m3 t) (m4 t) (m5 t)) w2))))"
    by (rule andThen_rel[where R=sameDrawInputs])
       (auto intro: sameDrawInputs_trans sameButSyncProps_sameDrawInputs
                    calculatePetFuisonTransform_same sameDrawInputs_emit)
  then show ?thesis using True by (simp add: applyLayerTransform_def)
next
  case False
  then show ?thesis by (simp add: applyLayerTransform_def sameDrawInputs_emit)
qed

lemma renderLayers_layer_sameDrawInputs:
  "sameDrawInputs w (world_of (renderLayers_layer cv act invd il w))"
proof (cases "layer_image (heap w (snd il))")
  case None
  then show ?thesis by (simp add: renderLayers_layer_def Let_def sameDrawInputs_refl)
next
  case (Some img)
  define w1 where "w1 = updateLayer (snd il) (\<lambda>L. L\<lparr>layer_canvas := Some cv\<rparr>) (emit Save w)"
  have r1: "sameDrawInputs w w1"
    unfolding w1_def using sameDrawInputs_emit sameDrawInputs_canvas sameDrawInputs_trans by blast
  show ?thesis
  proof (cases "imageId img")
    case None
    then show ?thesis using Some r1 by (simp add: renderLayers_layer_def Let_def w1_def)
  next
    case iid: (Some iid)
    have "sameDrawInputs w1 (world_of (andThen (applyLayerTransform (snd il) act iid w1)
                (\<lambda>u. rasterizeAndDraw (fst il) (snd il) img invd)))"
      by (rule andThen_rel[where R=sameDrawInputs])
         (auto intro: sameDrawInputs_trans applyLayerTransform_sameDrawInputs
                      rasterizeAndDraw_sameDrawInputs)
    with r1 have "sameDrawInputs w (world_of (andThen (applyLayerTransform (snd il) act iid w1)
                (\<lambda>u. rasterizeAndDraw (fst il) (snd il) img invd)))"
      by (rule sameDrawInputs_trans)
    then show ?thesis
      using Some iid by (simp add: renderLayers_layer_def Let_def w1_def)
  qed
qed

lemma renderLayers_layer_skip:
  "layer_image (heap w l) = None \<Longrightarrow> renderLayers_layer cv act invd (i, l) w = Returns () w"
  by (simp add: renderLayers_layer_def)

lemma renderLayers_layer_log:
  assumes "renderLayers_layer cv act invd (i, l) w = Returns () w'"
    and "layer_image (heap w l) = Some img"
  shows "\<exists>tr vp cm fill.
           viewport (heap w l) = Some vp \<and>
           (if truthy_string (colormap vp) then cm = colormap vp
            else \<exists>ops. options (heap w l) = Some ops \<and> cm = options_colormap ops) \<and>
           (tr = SetToPixelCoordinateSystem l \<or> (\<exists>a b c d e f. tr = SetTransform a b c d e f)) \<and>
           (fill = [] \<or> (\<exists>s. fill = [SetFillStyle s])) \<and>
           context2d w' = context2d w @
             [Save, tr, rasterize l i cm (labelmap vp) img (invalid (heap w l) \<or> invd),
              SetGlobalAlpha (globalAlpha (options (heap w l)))] @ fill @
             [SetImageSmoothingEnabled (\<not> pixelReplication vp),
              SetMozImageSmoothingEnabled (\<not> pixelReplication vp),
              DrawImage l (pt_x (tlhc (displayedArea vp)) - 1) (pt_y (tlhc (displayedArea vp)) - 1)
                (pt_x (brhc (displayedArea vp)) - (pt_x (tlhc (displayedArea vp)) - 1))
                (pt_y (brhc (displayedArea vp)) - (pt_y (tlhc (displayedArea vp)) - 1)) 0 0
                (pt_x (brhc (displayedArea vp)) - (pt_x (tlhc (displayedArea vp)) - 1))
                (pt_y (brhc (displayedArea vp)) - (pt_y (tlhc (displayedArea vp)) - 1)),
              Restore]"
proof -
  define w1 where "w1 = updateLayer l (\<lambda>L. L\<lparr>layer_canvas := Some cv\<rparr>) (emit Save w)"
  from assms obtain iid where iid: "imageId img = Some iid"
    by (cases "imageId img") (auto simp: renderLayers_layer_def Let_def)
  from assms iid obtain w3 where
    t: "applyLayerTransform l act iid w1 = Returns () w3" and
    d: "rasterizeAndDraw i l img invd w3 = Returns () w'"
    by (cases "applyLayerTransform l act iid w1")
       (auto simp: renderLayers_layer_def Let_def w1_def)
  from applyLayerTransform_Returns[OF t] obtain tr w2 where
    s: "sameButSyncProps w1 w2" and w3: "w3 = emit tr w2" and
    tr: "tr = SetToPixelCoordinateSystem l \<or> (\<exists>a b c d e f. tr = SetTransform a b c d e f)"
    by blast
  have f3: "viewport (heap w3 l) = viewport (heap w l)" "options (heap w3 l) = options (heap w l)"
    "invalid (heap w3 l) = invalid (heap w l)"
    using sameButSyncProps_fields[OF s, of l]
    by (simp_all add: w3 emit_def w1_def updateLayer_def)
  have c3: "context2d w3 = context2d w @ [Save, tr]"
    using s by (simp add: w3 emit_def w1_def updateLayer_def sameButSyncProps_def)
  from rasterizeAndDraw_log[OF d] obtain vp cm fill where r:
    "viewport (heap w l) = Some vp"
    "if truthy_string (colormap vp) then cm = colormap vp
     else \<exists>ops. options (heap w l) = Some ops \<and> cm = options_colormap ops"
    "fill = [] \<or> (\<exists>s. fill = [SetFillStyle s])"
    "context2d w' = (context2d w @ [Save, tr]) @
             [rasterize l i cm (labelmap vp) img (invalid (heap w l) \<or> invd),
              SetGlobalAlpha (globalAlpha (options (heap w l)))] @ fill @
             [SetImageSmoothingEnabled (\<not> pixelReplication vp),
              SetMozImageSmoothingEnabled (\<not> pixelReplication vp),
              DrawImage l (pt_x (tlhc (displayedArea vp)) - 1) (pt_y (tlhc (displayedArea vp)) - 1)
                (pt_x (brhc (displayedArea vp)) - (pt_x (tlhc (displayedArea vp)) - 1))
                (pt_y (brhc (displayedArea vp)) - (pt_y (tlhc (displayedArea vp)) - 1)) 0 0
                (pt_x (brhc (displayedArea vp)) - (pt_x (tlhc (displayedArea vp)) - 1))
                (pt_y (brhc (displayedArea vp)) - (pt_y (tlhc (displayedArea vp)) - 1)),
              Restore]"
    unfolding f3 c3 by blast
  show ?thesis
    by (intro exI[of _ tr] exI[of _ vp] exI[of _ cm] exI[of _ fill] conjI r(1) r(2) tr r(3))
       (simp add: r(4))
qed

lemma forEach_projection:
  assumes step: "\<And>x w w'. x \<in> set xs \<Longrightarrow> f x w = Returns () w' \<Longrightarrow>
                   P (context2d w') = P (context2d w) @ g w x"
    and inv: "\<And>x y w. g (world_of (f x w)) y = g w y"
    and ret: "forEach xs f w = Returns () w'"
  shows "P (context2d w') = P (context2d w) @ concat (map (g w) xs)"
  using step ret
proof (induction xs arbitrary: w)
  case Nil
  then show ?case by simp
next
  case (Cons x xs)
  from Cons.prems(2) obtain w1 where w1: "f x w = Returns () w1"
    and rest: "forEach xs f w1 = Returns () w'"
    by (cases "f x w") auto
  have g1: "g w1 = g w" using inv[of x w] w1 by (simp add: fun_eq_iff)
  have "P (context2d w1) = P (context2d w) @ g w x"
    using Cons.prems(1) w1 by simp
  moreover have "P (context2d w') = P (context2d w1) @ concat (map (g w1) xs)"
    using Cons.IH[OF _ rest] Cons.prems(1) by simp
  ultimately show ?case by (simp add: g1)
qed

lemma map_filter_append: "List.map_filter f (xs @ ys) = List.map_filter f xs @ List.map_filter f ys"
  by (simp add: List.map_filter_def)

lemma concat_map_if:
  "concat (map (\<lambda>x. if p x then [h x] else []) xs) = map h (filter p xs)"
  by (induction xs) simp_all

lemma rendererOfEvent_rasterize:
  "rendererOfEvent (rasterize l i cm lm img isInvalid) =
     Some (l, rendererBySpec (truthy_string cm) lm (color img) i)"
  by (cases "truthy_string cm"; cases lm; cases "color img") (simp_all add: rasterize_def)

lemma renderLayers_layer_rendererCalls:
  assumes "renderLayers_layer cv act invd il w = Returns () w'"
  shows "rendererCalls (context2d w') = rendererCalls (context2d w) @
           (if layer_image (heap w (snd il)) \<noteq> None
            then [(snd il, rendererBySpec (colormapSet (heap w (snd il))) (labelmapFlag (heap w (snd il)))
                    (imageIsColor (heap w (snd il))) (fst il))]
            else [])"
proof (cases "layer_image (heap w (snd il))")
  case None
  then have "w' = w" using assms renderLayers_layer_skip[of w "snd il" cv act invd "fst il"] by simp
  then show ?thesis using None by simp
next
  case (Some img)
  from renderLayers_layer_log[of cv act invd "fst il" "snd il" w w' img] assms Some
  obtain tr vp cm fill where r:
    "viewport (heap w (snd il)) = Some vp"
    "if truthy_string (colormap vp) then cm = colormap vp
     else \<exists>ops. options (heap w (snd il)) = Some ops \<and> cm = options_colormap ops"
    "tr = SetToPixelCoordinateSystem (snd il) \<or> (\<exists>a b c d e f. tr = SetTransform a b c d e f)"
    "fill = [] \<or> (\<exists>s. fill = [SetFillStyle s])"
    "context2d w' = context2d w @
       [Save, tr, rasterize (snd il) (fst il) cm (labelmap vp) img (invalid (heap w (snd il)) \<or> invd),
        SetGlobalAlpha (globalAlpha (options (heap w (snd il))))] @ fill @
       [SetImageSmoothingEnabled (\<not> pixelReplication vp),
        SetMozImageSmoothingEnabled (\<not> pixelReplication vp),
        DrawImage (snd il) (pt_x (tlhc (displayedArea vp)) - 1) (pt_y (tlhc (displayedArea vp)) - 1)
          (pt_x (brhc (displayedArea vp)) - (pt_x (tlhc (displayedArea vp)) - 1))
          (pt_y (brhc (displayedArea vp)) - (pt_y (tlhc (displayedArea vp)) - 1)) 0 0
          (pt_x (brhc (displayedArea vp)) - (pt_x (tlhc (displayedArea vp)) - 1))
          (pt_y (brhc (displayedArea vp)) - (pt_y (tlhc (displayedArea vp)) - 1)),
        Restore]"
    by auto
  have cm: "truthy_string cm = colormapSet (heap w (snd il))"
    using r(1,2) by (auto simp: colormapSet_def split: if_splits)
  have tr: "rendererOfEvent tr = None" using r(3) by auto
  have fill: "List.map_filter rendererOfEvent fill = []"
    using r(4) by (auto simp: List.map_filter_simps)
  show ?thesis
    unfolding rendererCalls_def r(5) map_filter_append
    using Some r(1) tr fill
    by (simp add: List.map_filter_simps rendererOfEvent_rasterize cm labelmapFlag_def imageIsColor_def)
qed

lemma sameDrawInputs_spec:
  assumes "sameDrawInputs w w'"
  shows "colormapSet (heap w' k) = colormapSet (heap w k)"
    and "labelmapFlag (heap w' k) = labelmapFlag (heap w k)"
    and "imageIsColor (heap w' k) = imageIsColor (heap w k)"
proof -
  have e: "layer_image (heap w' k) = layer_image (heap w k)"
    "viewport (heap w' k) = viewport (heap w k)"
    "options (heap w' k) = options (heap w k)"
    using assms by (simp_all add: sameDrawInputs_def)
  show "colormapSet (heap w' k) = colormapSet (heap w k)"
    unfolding colormapSet_def e ..
  show "labelmapFlag (heap w' k) = labelmapFlag (heap w k)"
    unfolding labelmapFlag_def e ..
  show "imageIsColor (heap w' k) = imageIsColor (heap w k)"
    unfolding imageIsColor_def e ..
qed

text \<open>
  Claim C8. When \<^verbatim>\<open>renderLayers\<close> returns, the renderer calls it has added to the
  log are, in order, one for each layer of the list that has an image, and the renderer
  of each is the one the precedence gives: label map when a colormap is set and the
  labelmap flag is true, else pseudo colour when a colormap is set, else true colour
  when the image is flagged colour, else grayscale; the grayscale renderer is asked for
  the alpha channel exactly when the layer is at index 0 of the list.
\<close>

theorem renderLayers_renderer_precedence:
  assumes "renderLayers cv layers act invd w = Returns () w'"
  shows "rendererCalls (context2d w') = rendererCalls (context2d w) @
           map (\<lambda>il. (snd il, rendererBySpec (colormapSet (heap w (snd il)))
                            (labelmapFlag (heap w (snd il))) (imageIsColor (heap w (snd il))) (fst il)))
               (filter (\<lambda>il. layer_image (heap w (snd il)) \<noteq> None) (enumerate 0 layers))"
proof -
  let ?g = "\<lambda>w il. if layer_image (heap w (snd il)) \<noteq> None
            then [(snd il, rendererBySpec (colormapSet (heap w (snd il))) (labelmapFlag (heap w (snd il)))
                    (imageIsColor (heap w (snd il))) (fst il))]
            else []"
  have inv: "\<And>x y w. ?g (world_of (renderLayers_layer cv act invd x w)) y = ?g w y"
  proof -
    fix x y w
    have s: "sameDrawInputs w (world_of (renderLayers_layer cv act invd x w))"
      by (rule renderLayers_layer_sameDrawInputs)
    show "?g (world_of (renderLayers_layer cv act invd x w)) y = ?g w y"
      using sameDrawInputs_spec[OF s] s by (simp add: sameDrawInputs_def)
  qed
  have "rendererCalls (context2d w') = rendererCalls (context2d w) @
          concat (map (?g w) (enumerate 0 layers))"
  proof (rule forEach_projection[where f="renderLayers_layer cv act invd" and P=rendererCalls
            and g="?g" and xs="enumerate 0 layers"])
    show "\<And>x w w'. x \<in> set (enumerate 0 layers) \<Longrightarrow>
            renderLayers_layer cv act invd x w = Returns () w' \<Longrightarrow>
            rendererCalls (context2d w') = rendererCalls (context2d w) @ ?g w x"
      by (rule renderLayers_layer_rendererCalls)
    show "\<And>x y w. ?g (world_of (renderLayers_layer cv act invd x w)) y = ?g w y"
      by (rule inv)
    show "forEach (enumerate 0 layers) (renderLayers_layer cv act invd) w = Returns () w'"
      using assms by (simp add: renderLayers_def)
  qed
  then show ?thesis by (simp add: concat_map_if)
qed

lemmas example_defs = exampleWorld_def exampleElement_def ctLayer_def petLayer_def emptyLayer_def

lemmas render_defs = renderLayers_def renderLayers_layer_def applyLayerTransform_def
  rasterizeAndDraw_def layerColormap_def rasterize_def globalAlpha_def applyFillStyle_def
  emit_def updateLayer_def isNonAxialPetMpr_def indexOf_def enumerate_eq_zip

lemma exampleWorld_renderLayers_returns:
  "\<exists>w'. renderLayers (canvas exampleElement) [0, 1] (Some 0) False exampleWorld = Returns () w'"
  by (simp add: render_defs example_defs Let_def)

theorem renderLayers_renderer_precedence_witness:
  "\<exists>w'. renderLayers (canvas exampleElement) [0, 1] (Some 0) False exampleWorld = Returns () w' \<and>
        rendererCalls (context2d w') = [(0, Grayscale True), (1, PseudoColor)]"
proof -
  obtain w' where r:
    "renderLayers (canvas exampleElement) [0, 1] (Some 0) False exampleWorld = Returns () w'"
    using exampleWorld_renderLayers_returns by blast
  have "rendererCalls (context2d w') = [(0, Grayscale True), (1, PseudoColor)]"
    using renderLayers_renderer_precedence[OF r]
    by (simp add: example_defs rendererCalls_def colormapSet_def labelmapFlag_def imageIsColor_def
          enumerate_eq_zip List.map_filter_simps)
  with r show ?thesis by blast
qed

lemma renderLayers_layer_globalAlpha:
  assumes "renderLayers_layer cv act invd il w = Returns () w'"
  shows "globalAlphaValues (context2d w') = globalAlphaValues (context2d w) @
           (if layer_image (heap w (snd il)) \<noteq> None
            then [globalAlpha (options (heap w (snd il)))] else [])"
proof (cases "layer_image (heap w (snd il))")
  case None
  then have "w' = w"
    using assms renderLayers_layer_skip[of w "snd il" cv act invd "fst il"] by simp
  then show ?thesis using None by simp
next
  case (Some img)
  from renderLayers_layer_log[of cv act invd "fst il" "snd il" w w' img] assms Some
  obtain tr vp cm fill where r0:
    "viewport (heap w (snd il)) = Some vp"
    "if truthy_string (colormap vp) then cm = colormap vp
     else \<exists>ops. options (heap w (snd il)) = Some ops \<and> cm = options_colormap ops"
    and r:
    "tr = SetToPixelCoordinateSystem (snd il) \<or> (\<exists>a b c d e f. tr = SetTransform a b c d e f)"
    "fill = [] \<or> (\<exists>s. fill = [SetFillStyle s])"
    "context2d w' = context2d w @
       [Save, tr, rasterize (snd il) (fst il) cm (labelmap vp) img (invalid (heap w (snd il)) \<or> invd),
        SetGlobalAlpha (globalAlpha (options (heap w (snd il))))] @ fill @
       [SetImageSmoothingEnabled (\<not> pixelReplication vp),
        SetMozImageSmoothingEnabled (\<not> pixelReplication vp),
        DrawImage (snd il) (pt_x (tlhc (displayedArea vp)) - 1) (pt_y (tlhc (displayedArea vp)) - 1)
          (pt_x (brhc (displayedArea vp)) - (pt_x (tlhc (displayedArea vp)) - 1))
          (pt_y (brhc (displayedArea vp)) - (pt_y (tlhc (displayedArea vp)) - 1)) 0 0
          (pt_x (brhc (displayedArea vp)) - (pt_x (tlhc (displayedArea vp)) - 1))
          (pt_y (brhc (displayedArea vp)) - (pt_y (tlhc (displayedArea vp)) - 1)),
        Restore]"
    by auto
  have tr: "globalAlphaOfEvent tr = None" using r(1) by auto
  have fill: "List.map_filter globalAlphaOfEvent fill = []"
    using r(2) by (auto simp: List.map_filter_simps)
  have ra: "globalAlphaOfEvent (rasterize (snd il) (fst il) cm (labelmap vp) img
              (invalid (heap w (snd il)) \<or> invd)) = None"
    by (simp add: rasterize_def)
  show ?thesis
    unfolding globalAlphaValues_def r(3) map_filter_append
    using Some tr fill ra by (simp add: List.map_filter_simps)
qed

lemma map_filter_snd_enumerate:
  "map (\<lambda>il. H (snd il)) (filter (\<lambda>il. Q (snd il)) (enumerate n xs)) = map H (filter Q xs)"
  by (induction xs arbitrary: n) simp_all

text \<open>
  Claim C9. When \<^verbatim>\<open>renderLayers\<close> returns, it has assigned the global alpha once for
  each layer of the list that has an image, in order, and the value assigned is the
  layer's opacity option when the layer has options with an opacity other than 0, and 1
  when the options are absent, the opacity is absent, or the opacity is 0: an opacity
  of 0 draws the layer opaque.
\<close>

theorem renderLayers_globalAlpha:
  assumes "renderLayers cv layers act invd w = Returns () w'"
  shows "globalAlphaValues (context2d w') = globalAlphaValues (context2d w) @
           map (\<lambda>l. case options (heap w l) of
                       None \<Rightarrow> 1
                     | Some ops \<Rightarrow>
                         (case opacity ops of None \<Rightarrow> 1 | Some v \<Rightarrow> if v = 0 then 1 else v))
               (filter (\<lambda>l. layer_image (heap w l) \<noteq> None) layers)"
proof -
  let ?g = "\<lambda>w il. if layer_image (heap w (snd il)) \<noteq> None
            then [globalAlpha (options (heap w (snd il)))] else []"
  have inv: "\<And>x y w. ?g (world_of (renderLayers_layer cv act invd x w)) y = ?g w y"
  proof -
    fix x y w
    have "sameDrawInputs w (world_of (renderLayers_layer cv act invd x w))"
      by (rule renderLayers_layer_sameDrawInputs)
    then show "?g (world_of (renderLayers_layer cv act invd x w)) y = ?g w y"
      by (simp add: sameDrawInputs_def)
  qed
  have "globalAlphaValues (context2d w') = globalAlphaValues (context2d w) @
          concat (map (?g w) (enumerate 0 layers))"
  proof (rule forEach_projection[where f="renderLayers_layer cv act invd" and P=globalAlphaValues
            and g="?g" and xs="enumerate 0 layers"])
    show "\<And>x w w'. x \<in> set (enumerate 0 layers) \<Longrightarrow>
            renderLayers_layer cv act invd x w = Returns () w' \<Longrightarrow>
            globalAlphaValues (context2d w') = globalAlphaValues (context2d w) @ ?g w x"
      by (rule renderLayers_layer_globalAlpha)
    show "\<And>x y w. ?g (world_of (renderLayers_layer cv act invd x w)) y = ?g w y"
      by (rule inv)
    show "forEach (enumerate 0 layers) (renderLayers_layer cv act invd) w = Returns () w'"
      using assms by (simp add: renderLayers_def)
  qed
  also have "concat (map (?g w) (enumerate 0 layers)) =
      map (\<lambda>l. globalAlpha (options (heap w l))) (filter (\<lambda>l. layer_image (heap w l) \<noteq> None) layers)"
    using map_filter_snd_enumerate[of "\<lambda>l. globalAlpha (options (heap w l))"
            "\<lambda>l. layer_image (heap w l) \<noteq> None" 0 layers]
    by (simp add: concat_map_if)
  also have "(\<lambda>l. globalAlpha (options (heap w l))) =
      (\<lambda>l. case options (heap w l) of
              None \<Rightarrow> 1
            | Some ops \<Rightarrow> (case opacity ops of None \<Rightarrow> 1 | Some v \<Rightarrow> if v = 0 then 1 else v))"
    by (auto simp: fun_eq_iff globalAlpha_def split: option.splits)
  finally show ?thesis .
qed

theorem renderLayers_globalAlpha_witness:
  "\<exists>w'. renderLayers (canvas exampleElement) [0, 1] (Some 0) False exampleWorld = Returns () w' \<and>
        map_option opacity (options (heap exampleWorld 0)) = Some (Some 0.5) \<and>
        map_option opacity (options (heap exampleWorld 1)) = Some (Some 0) \<and>
        globalAlphaValues (context2d w') = [0.5, 1]"
proof -
  obtain w' where r:
    "renderLayers (canvas exampleElement) [0, 1] (Some 0) False exampleWorld = Returns () w'"
    using exampleWorld_renderLayers_returns by blast
  have "globalAlphaValues (context2d w') = [0.5, 1]"
    using renderLayers_globalAlpha[OF r]
    by (simp add: example_defs globalAlphaValues_def List.map_filter_simps)
  with r show ?thesis by (auto simp: example_defs)
qed

subsection \<open>Composite renderer: what each phase leaves unchanged\<close>

lemma keepsSnapshots_refl: "keepsSnapshots w w"
  by (simp add: keepsSnapshots_def)

lemma keepsSnapshots_trans: "keepsSnapshots w w1 \<Longrightarrow> keepsSnapshots w1 w2 \<Longrightarrow> keepsSnapshots w w2"
  by (simp add: keepsSnapshots_def)

lemma forEach_rel:
  assumes refl: "\<And>x. R x x" and trans: "\<And>x y z. R x y \<Longrightarrow> R y z \<Longrightarrow> R x z"
    and step: "\<And>a w. a \<in> set xs \<Longrightarrow> R w (world_of (f a w))"
  shows "R w (world_of (forEach xs f w))"
  using step
proof (induction xs arbitrary: w)
  case Nil
  then show ?case by (simp add: refl)
next
  case (Cons a as)
  have "R w (world_of (andThen (f a w) (\<lambda>u. forEach as f)))"
  proof (rule andThen_rel[where R=R])
    show "R w (world_of (f a w))" using Cons.prems by simp
    show "\<And>a' w1. f a w = Returns a' w1 \<Longrightarrow> R w1 (world_of (forEach as f w1))"
      using Cons.IH Cons.prems by simp
  qed (rule trans)
  then show ?case by simp
qed

lemma ensureSyncProps_keeps: "keepsSnapshots w (world_of (ensureSyncProps l w))"
  by (auto simp: keepsSnapshots_def ensureSyncProps_def updateLayerSyncProps_def updateLayer_def
      split: option.splits)

lemma getViewportRatio_keeps: "keepsSnapshots w (world_of (getViewportRatio b t w))"
  unfolding getViewportRatio_def
proof (rule andThen_rel[where R=keepsSnapshots])
  show "keepsSnapshots w (world_of (ensureSyncProps b w))" by (rule ensureSyncProps_keeps)
next
  fix a w1
  show "keepsSnapshots w1 (world_of (andThen (ensureSyncProps t w1) (\<lambda>u2 w2.
       (case (syncProps (heap w2 t), syncProps (heap w2 b)) of
          (Some t, Some b) \<Rightarrow> Returns (originalScale t / originalScale b) w2
        | (t, b) \<Rightarrow> Throws TypeError w2))))"
  proof (rule andThen_rel[where R=keepsSnapshots])
    show "keepsSnapshots w1 (world_of (ensureSyncProps t w1))" by (rule ensureSyncProps_keeps)
  next
    fix a2 w2
    show "keepsSnapshots w2 (world_of (case (syncProps (heap w2 t), syncProps (heap w2 b)) of
          (Some t, Some b) \<Rightarrow> Returns (originalScale t / originalScale b) w2
        | (t, b) \<Rightarrow> Throws TypeError w2))"
      by (simp add: keepsSnapshots_refl split: option.splits)
  qed (rule keepsSnapshots_trans)
qed (rule keepsSnapshots_trans)

lemma calculatePetFuisonTransform_keeps:
  "keepsSnapshots w (world_of (calculatePetFuisonTransform e act w))"
proof -
  have r: "\<And>a f. keepsSnapshots w (world_of (andThen (getViewportRatio a e w) (\<lambda>r w'. Returns (f r) w')))"
    subgoal for a f
      using getViewportRatio_keeps[of w a e] by (cases "getViewportRatio a e w") simp_all
    done
  show ?thesis
    unfolding calculatePetFuisonTransform_def Let_def
    by (simp add: keepsSnapshots_refl r split: option.splits)
qed

lemma syncViewports_layer_keeps: "keepsSnapshots w (world_of (syncViewports_layer act l w))"
  unfolding keepsSnapshots_def using syncViewports_layer_syncProps by blast

lemma syncViewports_loop_keeps: "keepsSnapshots w (world_of (syncViewports_loop layers act w))"
  unfolding syncViewports_loop_def
  by (rule forEach_rel[where R=keepsSnapshots])
     (auto intro: keepsSnapshots_refl keepsSnapshots_trans syncViewports_layer_keeps)

lemma syncViewports_keeps: "keepsSnapshots w (world_of (syncViewports layers act w))"
  unfolding syncViewports_def
  using syncViewports_loop_keeps[of "w\<lparr>syncPasses := syncPasses w @ [(layers, act)]\<rparr>" layers act]
  by (simp add: keepsSnapshots_def)

lemma keepsSnapshots_emit: "keepsSnapshots w (emit ev w)"
  by (simp add: keepsSnapshots_def emit_def)

lemma applyLayerTransform_keeps: "keepsSnapshots w (world_of (applyLayerTransform l act iid w))"
proof (cases "isNonAxialPetMpr iid")
  case True
  have "keepsSnapshots w (world_of (andThen (calculatePetFuisonTransform l act w) (\<lambda>t w2.
           Returns () (emit (SetTransform (m0 t) (m1 t) (m2 t) (m3 t) (m4 t) (m5 t)) w2))))"
    by (rule andThen_rel[where R=keepsSnapshots])
       (auto intro: keepsSnapshots_trans calculatePetFuisonTransform_keeps keepsSnapshots_emit)
  then show ?thesis using True by (simp add: applyLayerTransform_def)
next
  case False
  then show ?thesis by (simp add: applyLayerTransform_def keepsSnapshots_emit)
qed

lemma rasterizeAndDraw_keeps: "keepsSnapshots w (world_of (rasterizeAndDraw i l img invd w))"
proof (cases "viewport (heap w l)")
  case None
  then show ?thesis by (simp add: rasterizeAndDraw_def keepsSnapshots_refl)
next
  case vp: (Some vp)
  show ?thesis
  proof (cases "layerColormap vp (options (heap w l)) w")
    case (Returns cm w4)
    then have "w4 = w" using layerColormap_world[of vp "options (heap w l)" w] by simp
    then show ?thesis using vp Returns
      by (simp add: rasterizeAndDraw_def Let_def keepsSnapshots_def updateLayer_def emit_def
            applyFillStyle_def split: option.splits)
  next
    case (Throws e w4)
    then have "w4 = w" using layerColormap_world[of vp "options (heap w l)" w] by simp
    then show ?thesis using vp Throws by (simp add: rasterizeAndDraw_def keepsSnapshots_refl)
  qed
qed

lemma renderLayers_layer_keeps:
  "keepsSnapshots w (world_of (renderLayers_layer cv act invd il w))"
proof (cases "layer_image (heap w (snd il))")
  case None
  then show ?thesis by (simp add: renderLayers_layer_def Let_def keepsSnapshots_refl)
next
  case (Some img)
  define w1 where "w1 = updateLayer (snd il) (\<lambda>L. L\<lparr>layer_canvas := Some cv\<rparr>) (emit Save w)"
  have r1: "keepsSnapshots w w1"
    by (simp add: w1_def keepsSnapshots_def updateLayer_def emit_def)
  show ?thesis
  proof (cases "imageId img")
    case None
    then show ?thesis using Some r1 by (simp add: renderLayers_layer_def Let_def w1_def)
  next
    case iid: (Some iid)
    have "keepsSnapshots w1 (world_of (andThen (applyLayerTransform (snd il) act iid w1)
                (\<lambda>u. rasterizeAndDraw (fst il) (snd il) img invd)))"
      by (rule andThen_rel[where R=keepsSnapshots])
         (auto intro: keepsSnapshots_trans applyLayerTransform_keeps rasterizeAndDraw_keeps)
    with r1 have "keepsSnapshots w (world_of (andThen (applyLayerTransform (snd il) act iid w1)
                (\<lambda>u. rasterizeAndDraw (fst il) (snd il) img invd)))"
      by (rule keepsSnapshots_trans)
    then show ?thesis
      using Some iid by (simp add: renderLayers_layer_def Let_def w1_def)
  qed
qed

lemma renderLayers_keeps: "keepsSnapshots w (world_of (renderLayers cv layers act invd w))"
  unfolding renderLayers_def
  by (rule forEach_rel[where R=keepsSnapshots])
     (auto intro: keepsSnapshots_refl keepsSnapshots_trans renderLayers_layer_keeps)

lemma clearAndRender_keeps: "keepsSnapshots w (world_of (clearAndRender vis act invd w))"
proof -
  have "keepsSnapshots w (emit (FillRect 0 0 (canvas_width (canvas (enabledElement w)))
           (canvas_height (canvas (enabledElement w))))
          (emit (SetFillStyle ''black'') (emit (SetTransform 1 0 0 1 0 0) w)))"
    by (simp add: keepsSnapshots_def emit_def)
  then show ?thesis
    unfolding clearAndRender_def Let_def
    using renderLayers_keeps keepsSnapshots_trans by blast
qed

lemma onlyHeapChanged_refl: "onlyHeapChanged w w"
  by (simp add: onlyHeapChanged_def)

lemma onlyHeapChanged_trans:
  "onlyHeapChanged w w1 \<Longrightarrow> onlyHeapChanged w1 w2 \<Longrightarrow> onlyHeapChanged w w2"
  by (simp add: onlyHeapChanged_def)

lemma onlyHeapChanged_updateLayer: "onlyHeapChanged w (updateLayer l f w)"
  by (simp add: onlyHeapChanged_def updateLayer_def)

lemma sameButSyncProps_onlyHeapChanged: "sameButSyncProps w w' \<Longrightarrow> onlyHeapChanged w w'"
  by (simp add: onlyHeapChanged_def sameButSyncProps_def)

lemma updateLayerSyncProps_onlyHeap: "onlyHeapChanged w (world_of (updateLayerSyncProps l w))"
  by (rule sameButSyncProps_onlyHeapChanged) (rule updateLayerSyncProps_same)

lemma getViewportRatio_onlyHeap: "onlyHeapChanged w (world_of (getViewportRatio b t w))"
  by (rule sameButSyncProps_onlyHeapChanged) (rule getViewportRatio_same)

lemma syncViewports_layer_onlyHeap: "onlyHeapChanged w (world_of (syncViewports_layer act l w))"
  by (auto simp: sync_defs onlyHeapChanged_def split: option.splits)

lemma syncViewports_loop_onlyHeap:
  "onlyHeapChanged w (world_of (syncViewports_loop layers act w))"
  unfolding syncViewports_loop_def
  by (rule forEach_rel[where R=onlyHeapChanged])
     (auto intro: onlyHeapChanged_refl onlyHeapChanged_trans syncViewports_layer_onlyHeap)

text \<open>A pass enters itself in the record of passes once and changes nothing else but layers.\<close>

lemma syncViewports_pass:
  "enabledElement (world_of (syncViewports layers act w)) = enabledElement w \<and>
   context2d (world_of (syncViewports layers act w)) = context2d w \<and>
   syncPasses (world_of (syncViewports layers act w)) = syncPasses w @ [(layers, act)]"
  unfolding syncViewports_def
  using syncViewports_loop_onlyHeap[of "w\<lparr>syncPasses := syncPasses w @ [(layers, act)]\<rparr>" layers act]
  by (simp add: onlyHeapChanged_def)

lemma rescaleImage_onlyHeap: "onlyHeapChanged w (world_of (rescaleImage b t w))"
  by (auto simp: rescaleImage_def onlyHeapChanged_def updateLayer_def Let_def split: option.splits)

lemma filterNotPet_world: "world_of (filterNotPet layers w) = w"
proof (induction layers)
  case Nil
  then show ?case by simp
next
  case (Cons l ls)
  then show ?case
    by (cases "filterNotPet ls w") (auto split: option.splits)
qed

lemma resizePetLayer_onlyHeap:
  "onlyHeapChanged w (world_of (resizePetLayer fit ct l ops w))"
proof -
  have r: "\<And>w1. onlyHeapChanged w w1 \<Longrightarrow>
      onlyHeapChanged w (world_of (andThen (rescaleImage (firstElement ct) l w1) (\<lambda>u w2.
         Returns () (updateLayer l (\<lambda>L. L\<lparr>options := Some (ops\<lparr>reSize := False\<rparr>)\<rparr>) w2))))"
  proof -
    fix w1 assume a: "onlyHeapChanged w w1"
    have "onlyHeapChanged w1 (world_of (andThen (rescaleImage (firstElement ct) l w1) (\<lambda>u w2.
         Returns () (updateLayer l (\<lambda>L. L\<lparr>options := Some (ops\<lparr>reSize := False\<rparr>)\<rparr>) w2))))"
      by (rule andThen_rel[where R=onlyHeapChanged])
         (auto intro: onlyHeapChanged_trans rescaleImage_onlyHeap onlyHeapChanged_updateLayer)
    with a show "onlyHeapChanged w (world_of (andThen (rescaleImage (firstElement ct) l w1) (\<lambda>u w2.
         Returns () (updateLayer l (\<lambda>L. L\<lparr>options := Some (ops\<lparr>reSize := False\<rparr>)\<rparr>) w2))))"
      by (rule onlyHeapChanged_trans)
  qed
  show ?thesis
    unfolding resizePetLayer_def Let_def
    by (simp add: onlyHeapChanged_refl r onlyHeapChanged_updateLayer split: option.splits)
qed

lemma resizeLoop_layer_onlyHeap:
  "onlyHeapChanged w (world_of (resizeLoop_layer fit ct l w))"
proof (cases "options (heap w l)")
  case None
  then show ?thesis by (simp add: resizeLoop_layer_def onlyHeapChanged_refl)
next
  case (Some ops)
  have "onlyHeapChanged w (world_of (andThen
            (if name ops = Some ''PET'' then resizePetLayer fit ct l ops w else Returns () w)
            (\<lambda>u w3. if viewport (heap w3 l) \<noteq> None then updateLayerSyncProps l w3
                     else Returns () w3)))"
  proof (rule andThen_rel[where R=onlyHeapChanged])
    show "onlyHeapChanged w (world_of
            (if name ops = Some ''PET'' then resizePetLayer fit ct l ops w else Returns () w))"
      by (simp add: onlyHeapChanged_refl resizePetLayer_onlyHeap)
    show "\<And>a w1. onlyHeapChanged w1 (world_of (if viewport (heap w1 l) \<noteq> None
             then updateLayerSyncProps l w1 else Returns () w1))"
      by (simp add: onlyHeapChanged_refl updateLayerSyncProps_onlyHeap)
  qed (rule onlyHeapChanged_trans)
  then show ?thesis using Some by (simp add: resizeLoop_layer_def)
qed

lemma resizeLoop_onlyHeap: "onlyHeapChanged w (world_of (resizeLoop fit layers w))"
  unfolding resizeLoop_def
proof (rule andThen_rel[where R=onlyHeapChanged])
  show "onlyHeapChanged w (world_of (filterNotPet layers w))"
    by (simp add: filterNotPet_world onlyHeapChanged_refl)
  show "\<And>a w1. onlyHeapChanged w1 (world_of (forEach layers (resizeLoop_layer fit a) w1))"
    by (rule forEach_rel[where R=onlyHeapChanged])
       (auto intro: onlyHeapChanged_refl onlyHeapChanged_trans resizeLoop_layer_onlyHeap)
qed (rule onlyHeapChanged_trans)

lemma resyncCheck_returns:
  "\<exists>wR. resyncCheck layers w = Returns () wR \<and>
        sameButSyncProps (w\<lparr>enabledElement := (enabledElement w)
                  \<lparr>lastSyncViewportsState := syncViewportsFlag (enabledElement w)\<rparr>\<rparr>) wR \<and>
        (lastSyncViewportsState (enabledElement w) \<or> \<not> syncViewportsFlag (enabledElement w)
           \<longrightarrow> wR = w\<lparr>enabledElement := (enabledElement w)
                  \<lparr>lastSyncViewportsState := syncViewportsFlag (enabledElement w)\<rparr>\<rparr>)"
proof -
  let ?w1 = "w\<lparr>enabledElement := (enabledElement w)
                  \<lparr>lastSyncViewportsState := syncViewportsFlag (enabledElement w)\<rparr>\<rparr>"
  let ?f = "\<lambda>layer w'. if viewport (heap w' layer) \<noteq> None then updateLayerSyncProps layer w'
                            else Returns () w'"
  have ret: "\<exists>w'. forEach layers ?f ?w1 = Returns () w'"
    by (rule forEach_returns) (auto simp: updateLayerSyncProps_def)
  have same: "sameButSyncProps ?w1 (world_of (forEach layers ?f ?w1))"
    by (rule forEach_rel[where R=sameButSyncProps])
       (auto intro: sameButSyncProps_refl sameButSyncProps_trans updateLayerSyncProps_same)
  from ret obtain w' where w': "forEach layers ?f ?w1 = Returns () w'" by blast
  show ?thesis
  proof (cases "\<not> lastSyncViewportsState (enabledElement w) \<and> syncViewportsFlag (enabledElement w)")
    case True
    then have "resyncCheck layers w = Returns () w'"
      using w' by (simp add: resyncCheck_def Let_def)
    moreover have "sameButSyncProps ?w1 w'" using same w' by simp
    ultimately show ?thesis using True by blast
  next
    case False
    then have "resyncCheck layers w = Returns () ?w1"
      by (auto simp: resyncCheck_def Let_def)
    then show ?thesis using sameButSyncProps_refl by blast
  qed
qed

lemma sameOptions_bResetPetScale:
  assumes "\<And>k. options (heap w' k) = options (heap w k)"
  shows "bResetPetScale layers w' = bResetPetScale layers w"
  using assms by (simp add: bResetPetScale_def isPetResize_def list_ex_iff)

lemma resyncCheck_facts:
  "\<exists>wR. resyncCheck layers w = Returns () wR \<and>
     (\<forall>k. options (heap wR k) = options (heap w k)) \<and>
     (\<forall>k. viewport (heap wR k) = viewport (heap w k)) \<and>
     (\<forall>k. layer_image (heap wR k) = layer_image (heap w k)) \<and>
     context2d wR = context2d w \<and>
     syncViewportsFlag (enabledElement wR) = syncViewportsFlag (enabledElement w) \<and>
     canvas (enabledElement wR) = canvas (enabledElement w) \<and>
     (\<forall>layers'. bResetPetScale layers' wR = bResetPetScale layers' w) \<and>
     (lastSyncViewportsState (enabledElement w) \<or> \<not> syncViewportsFlag (enabledElement w)
        \<longrightarrow> heap wR = heap w)"
proof -
  let ?w1 = "w\<lparr>enabledElement := (enabledElement w)
                  \<lparr>lastSyncViewportsState := syncViewportsFlag (enabledElement w)\<rparr>\<rparr>"
  from resyncCheck_returns[of layers w] obtain wR where
    r: "resyncCheck layers w = Returns () wR" and s: "sameButSyncProps ?w1 wR"
    and n: "lastSyncViewportsState (enabledElement w) \<or> \<not> syncViewportsFlag (enabledElement w)
           \<longrightarrow> wR = ?w1"
    by blast
  have o: "\<And>k. options (heap wR k) = options (heap w k)"
    using sameButSyncProps_fields(3)[OF s] by simp
  have v: "\<And>k. viewport (heap wR k) = viewport (heap w k)"
    using sameButSyncProps_fields(2)[OF s] by simp
  have i: "\<And>k. layer_image (heap wR k) = layer_image (heap w k)"
    using sameButSyncProps_fields(1)[OF s] by simp
  have c: "context2d wR = context2d w"
    "syncViewportsFlag (enabledElement wR) = syncViewportsFlag (enabledElement w)"
    "canvas (enabledElement wR) = canvas (enabledElement w)"
    using s by (simp_all add: sameButSyncProps_def)
  have b: "\<And>layers'. bResetPetScale layers' wR = bResetPetScale layers' w"
    using o by (rule sameOptions_bResetPetScale)
  have h: "lastSyncViewportsState (enabledElement w) \<or> \<not> syncViewportsFlag (enabledElement w)
        \<longrightarrow> heap wR = heap w"
    using n by auto
  show ?thesis
    using r o v i c b h by blast
qed

subsection \<open>Composite renderer: the resize of PET layers and the sync passes\<close>

lemma drawCompositeImage_after_resizeLoop:
  assumes "bResetPetScale allLayers w"
    and "resizeLoop fit allLayers (world_of (resyncCheck allLayers w)) = Returns () w2"
  shows "drawCompositeImage fit allLayers activeLayer visibleLayers invd w =
           andThen (syncViewports visibleLayers activeLayer w2) (\<lambda>u w3.
             if syncViewportsFlag (enabledElement w)
             then andThen (syncViewports visibleLayers activeLayer w3)
                    (\<lambda>u. clearAndRender visibleLayers activeLayer invd)
             else clearAndRender visibleLayers activeLayer invd w3)"
proof -
  obtain wR where r: "resyncCheck allLayers w = Returns () wR"
    and flagR: "syncViewportsFlag (enabledElement wR) = syncViewportsFlag (enabledElement w)"
    and pet: "bResetPetScale allLayers wR = bResetPetScale allLayers w"
    using resyncCheck_facts[of allLayers w] by blast
  have loop: "resizeLoop fit allLayers wR = Returns () w2" using assms(2) r by simp
  have "onlyHeapChanged wR w2" using resizeLoop_onlyHeap[of wR fit allLayers] loop by simp
  then have flag2: "syncViewportsFlag (enabledElement w2) = syncViewportsFlag (enabledElement w)"
    using flagR by (simp add: onlyHeapChanged_def)
  have flag3: "\<And>u w3. syncViewports visibleLayers activeLayer w2 = Returns u w3 \<Longrightarrow>
      syncViewportsFlag (enabledElement w3) = syncViewportsFlag (enabledElement w)"
    using syncViewports_pass[of visibleLayers activeLayer w2] flag2
    by simp
  show ?thesis
  proof (cases "syncViewports visibleLayers activeLayer w2")
    case (Returns u w3)
    then show ?thesis
      using r pet assms(1) loop flag3[OF Returns]
      by (simp add: drawCompositeImage_def)
  next
    case (Throws e w3)
    then show ?thesis
      using r pet assms(1) loop by (simp add: drawCompositeImage_def)
  qed
qed

lemmas draw_defs = drawCompositeImage_def resyncCheck_def bResetPetScale_def isPetResize_def
  resizeLoop_def resizeLoop_layer_def resizePetLayer_def rescaleImage_def syncViewports_def syncViewports_loop_def sync_defs
  clearAndRender_def exampleFit_def

lemma drawCompositeImage_resizeLoop_throws:
  assumes "bResetPetScale allLayers w"
    and "resizeLoop fit allLayers (world_of (resyncCheck allLayers w)) = Throws e w2"
  shows "drawCompositeImage fit allLayers act vis invd w = Throws e w2"
proof -
  obtain wR where r: "resyncCheck allLayers w = Returns () wR"
    and pet: "bResetPetScale allLayers wR = bResetPetScale allLayers w"
    using resyncCheck_facts[of allLayers w] by blast
  show ?thesis using r pet assms by (simp add: drawCompositeImage_def)
qed

lemma rasterizeAndDraw_passes:
  "syncPasses (world_of (rasterizeAndDraw i l img invd w)) = syncPasses w"
proof (cases "viewport (heap w l)")
  case None
  then show ?thesis by (simp add: rasterizeAndDraw_def)
next
  case vp: (Some vp)
  show ?thesis
  proof (cases "layerColormap vp (options (heap w l)) w")
    case (Returns cm w4)
    then have "w4 = w" using layerColormap_world[of vp "options (heap w l)" w] by simp
    then show ?thesis using vp Returns
      by (simp add: rasterizeAndDraw_def Let_def updateLayer_def emit_def
            applyFillStyle_def split: option.splits)
  next
    case (Throws e w4)
    then have "w4 = w" using layerColormap_world[of vp "options (heap w l)" w] by simp
    then show ?thesis using vp Throws by (simp add: rasterizeAndDraw_def)
  qed
qed

lemma applyLayerTransform_passes:
  "syncPasses (world_of (applyLayerTransform l act iid w)) = syncPasses w"
proof (cases "isNonAxialPetMpr iid")
  case True
  have "syncPasses (world_of (calculatePetFuisonTransform l act w)) = syncPasses w"
    using calculatePetFuisonTransform_same[of w l act] by (simp add: sameButSyncProps_def)
  then show ?thesis using True
    by (cases "calculatePetFuisonTransform l act w") (simp_all add: applyLayerTransform_def emit_def)
next
  case False
  then show ?thesis by (simp add: applyLayerTransform_def emit_def)
qed

lemma renderLayers_layer_passes:
  "syncPasses (world_of (renderLayers_layer cv act invd il w)) = syncPasses w"
proof (cases "layer_image (heap w (snd il))")
  case None
  then show ?thesis by (simp add: renderLayers_layer_def Let_def)
next
  case (Some img)
  define w1 where "w1 = updateLayer (snd il) (\<lambda>L. L\<lparr>layer_canvas := Some cv\<rparr>) (emit Save w)"
  have r1: "syncPasses w1 = syncPasses w"
    by (simp add: w1_def updateLayer_def emit_def)
  show ?thesis
  proof (cases "imageId img")
    case None
    then show ?thesis using Some r1 by (simp add: renderLayers_layer_def Let_def w1_def)
  next
    case iid: (Some iid)
    have "syncPasses (world_of (andThen (applyLayerTransform (snd il) act iid w1)
                (\<lambda>u. rasterizeAndDraw (fst il) (snd il) img invd))) = syncPasses w1"
      by (rule andThen_rel[where R="\<lambda>w w'. syncPasses w' = syncPasses w"])
         (simp_all add: applyLayerTransform_passes rasterizeAndDraw_passes)
    then show ?thesis
      using Some iid r1 by (simp add: renderLayers_layer_def Let_def w1_def)
  qed
qed

lemma clearAndRender_passes:
  "syncPasses (world_of (clearAndRender vis act invd w)) = syncPasses w"
proof -
  have "\<And>cv w. syncPasses (world_of (renderLayers cv vis act invd w)) = syncPasses w"
    unfolding renderLayers_def
    by (rule forEach_rel[where R="\<lambda>w w'. syncPasses w' = syncPasses w"])
       (simp_all add: renderLayers_layer_passes)
  then show ?thesis
    by (simp add: clearAndRender_def Let_def emit_def)
qed

lemma clearAndRender_sameDrawInputs:
  "sameDrawInputs w (world_of (clearAndRender vis act invd w))"
proof -
  have r: "\<And>cv w. sameDrawInputs w (world_of (renderLayers cv vis act invd w))"
    unfolding renderLayers_def
    by (rule forEach_rel[where R=sameDrawInputs])
       (auto intro: sameDrawInputs_refl sameDrawInputs_trans renderLayers_layer_sameDrawInputs)
  have "sameDrawInputs w (emit (FillRect 0 0 (canvas_width (canvas (enabledElement w)))
           (canvas_height (canvas (enabledElement w))))
          (emit (SetFillStyle ''black'') (emit (SetTransform 1 0 0 1 0 0) w)))"
    by (simp add: sameDrawInputs_def emit_def)
  then show ?thesis
    unfolding clearAndRender_def Let_def
    using r sameDrawInputs_trans by blast
qed

lemma Synced_kept:
  assumes "Synced a l w" and "sameDrawInputs w w'" and "keepsSnapshots w w'"
  shows "Synced a l w'"
proof -
  from assms(1) obtain sa sl va vl where s:
    "syncProps (heap w a) = Some sa" "syncProps (heap w l) = Some sl"
    "viewport (heap w a) = Some va" "viewport (heap w l) = Some vl"
    and eqs: "scale vl = scale va * (originalScale sl / originalScale sa)"
        "rotation vl = rotation va"
        "translation vl =
          \<lparr>pt_x = pt_x (translation va) / (originalScale sl / originalScale sa),
           pt_y = pt_y (translation va) / (originalScale sl / originalScale sa)\<rparr>"
        "hflip vl = hflip va" "vflip vl = vflip va"
    unfolding Synced_def by blast
  have "syncProps (heap w' a) = Some sa" "syncProps (heap w' l) = Some sl"
    using assms(3) s(1,2) by (simp_all add: keepsSnapshots_def)
  moreover have "viewport (heap w' a) = Some va" "viewport (heap w' l) = Some vl"
    using assms(2) s(3,4) by (simp_all add: sameDrawInputs_def)
  ultimately show ?thesis
    unfolding Synced_def
    by (intro exI[of _ sa] exI[of _ sl] exI[of _ va] exI[of _ vl]) (simp add: eqs)
qed

lemma clearAndRender_Synced:
  "Synced a l w \<Longrightarrow> Synced a l (world_of (clearAndRender vis act invd w))"
  by (rule Synced_kept[OF _ clearAndRender_sameDrawInputs clearAndRender_keeps])

lemma Synced_explicit:
  assumes "Synced a l w"
  shows "\<exists>r va vl.
           getViewportRatio a l w = Returns r w \<and>
           viewport (heap w a) = Some va \<and> viewport (heap w l) = Some vl \<and>
           scale vl = scale va * r \<and>
           rotation vl = rotation va \<and>
           pt_x (translation vl) = pt_x (translation va) / r \<and>
           pt_y (translation vl) = pt_y (translation va) / r \<and>
           hflip vl = hflip va \<and> vflip vl = vflip va"
proof -
  from assms obtain sa sl va vl where s:
    "syncProps (heap w a) = Some sa" "syncProps (heap w l) = Some sl"
    "viewport (heap w a) = Some va" "viewport (heap w l) = Some vl"
    "scale vl = scale va * (originalScale sl / originalScale sa)"
    "rotation vl = rotation va"
    "translation vl =
          \<lparr>pt_x = pt_x (translation va) / (originalScale sl / originalScale sa),
           pt_y = pt_y (translation va) / (originalScale sl / originalScale sa)\<rparr>"
    "hflip vl = hflip va" "vflip vl = vflip va"
    unfolding Synced_def by blast
  have "getViewportRatio a l w = Returns (originalScale sl / originalScale sa) w"
    using s(1,2) by (rule getViewportRatio_pure)
  then show ?thesis
    using s(3-9)
    by (intro exI[of _ "originalScale sl / originalScale sa"] exI[of _ va] exI[of _ vl]) simp
qed

lemma resyncCheck_passes: "syncPasses (world_of (resyncCheck layers w)) = syncPasses w"
proof -
  from resyncCheck_returns[of layers w] obtain wR where
    "resyncCheck layers w = Returns () wR"
    "sameButSyncProps (w\<lparr>enabledElement := (enabledElement w)
                  \<lparr>lastSyncViewportsState := syncViewportsFlag (enabledElement w)\<rparr>\<rparr>) wR"
    by blast
  then show ?thesis by (simp add: sameButSyncProps_def)
qed

lemma resizeLoop_passes: "syncPasses (world_of (resizeLoop fit layers w)) = syncPasses w"
  using resizeLoop_onlyHeap[of w fit layers] by (simp add: onlyHeapChanged_def)

text \<open>The passes recorded for a call once the resize loop has returned.\<close>

lemma syncPasses_after_resizeLoop:
  assumes "bResetPetScale allLayers w"
    and "resizeLoop fit allLayers (world_of (resyncCheck allLayers w)) = Returns () w2"
  shows "syncPasses (world_of (drawCompositeImage fit allLayers act vis invd w)) =
           syncPasses w @ (vis, act) #
             (if syncViewportsFlag (enabledElement w) \<and>
                 (\<exists>w3. syncViewports vis act w2 = Returns () w3)
              then [(vis, act)] else [])"
proof -
  have p2: "syncPasses w2 = syncPasses w"
    using resizeLoop_passes[of fit allLayers "world_of (resyncCheck allLayers w)"] assms(2)
      resyncCheck_passes[of allLayers w] by simp
  note d = drawCompositeImage_after_resizeLoop[OF assms, of act vis invd]
  show ?thesis
  proof (cases "syncViewports vis act w2")
    case (Throws e w3)
    then show ?thesis
      using d syncViewports_pass[of vis act w2] p2 by simp
  next
    case (Returns u w3)
    have p3: "syncPasses w3 = syncPasses w @ [(vis, act)]"
      using syncViewports_pass[of vis act w2] Returns p2 by simp
    show ?thesis
    proof (cases "syncViewportsFlag (enabledElement w)")
      case False
      then show ?thesis
        using d Returns p3 clearAndRender_passes[of vis act invd w3] by simp
    next
      case True
      have "syncPasses (world_of (andThen (syncViewports vis act w3)
               (\<lambda>u. clearAndRender vis act invd))) = syncPasses w3 @ [(vis, act)]"
        using syncViewports_pass[of vis act w3] clearAndRender_passes[of vis act invd]
        by (cases "syncViewports vis act w3") simp_all
      then show ?thesis
        using d Returns p3 True by simp
    qed
  qed
qed

lemma Synced_after_resizeLoop:
  assumes "bResetPetScale allLayers w"
    and "resizeLoop fit allLayers (world_of (resyncCheck allLayers w)) = Returns () w2"
    and "l \<in> set vis" and "l \<noteq> a"
    and "viewport (heap w2 l) \<noteq> None" and "viewport (heap w2 a) \<noteq> None"
  shows "Synced a l (world_of (drawCompositeImage fit allLayers (Some a) vis invd w))"
proof -
  note d = drawCompositeImage_after_resizeLoop[OF assms(1,2), of "Some a" vis invd]
  obtain w3 where r3: "syncViewports vis (Some a) w2 = Returns () w3"
    using syncViewports_returns by blast
  have s3: "Synced a l w3"
    using syncViewports_Synced[OF assms(3-6)] r3 by simp
  show ?thesis
  proof (cases "syncViewportsFlag (enabledElement w)")
    case False
    then show ?thesis using d r3 clearAndRender_Synced[OF s3] by simp
  next
    case True
    obtain w4 where r4: "syncViewports vis (Some a) w3 = Returns () w4"
      using syncViewports_returns by blast
    have "Synced a l w4"
      using syncViewports_Synced[OF assms(3,4), of w3] Synced_viewports[OF s3] r4 by simp
    then show ?thesis using d r3 r4 True clearAndRender_Synced by simp
  qed
qed

text \<open>
  Claim C5, as amended. Take a render call where some layer is named \<^verbatim>\<open>'PET'\<close> with
  a resize request pending. If the resize loop returns, the call goes on with a
  synchronisation pass over the visible layers, whatever the sync flag, and, when the
  flag is on and that pass has returned, with a second pass over the same layers, and
  only then clears and draws: the passes recorded for the call are one with the flag
  off and two with it on. With an active layer given a pass always returns, and after
  the call every visible layer other than the active one, where both have a viewport,
  is in step with the active layer (scale, rotation, translation and flips as a pass
  sets them), also with the flag off. If the resize loop throws, the call throws the
  same error and no pass has run.
\<close>

theorem drawCompositeImage_pet_resize_sync_passes:
  assumes "bResetPetScale allLayers w"
  shows "(\<forall>w2. resizeLoop fit allLayers (world_of (resyncCheck allLayers w)) = Returns () w2 \<longrightarrow>
            drawCompositeImage fit allLayers activeLayer visibleLayers invd w =
              andThen (syncViewports visibleLayers activeLayer w2) (\<lambda>u w3.
                if syncViewportsFlag (enabledElement w)
                then andThen (syncViewports visibleLayers activeLayer w3)
                       (\<lambda>u. clearAndRender visibleLayers activeLayer invd)
                else clearAndRender visibleLayers activeLayer invd w3) \<and>
            syncPasses (world_of (drawCompositeImage fit allLayers activeLayer visibleLayers invd w)) =
              syncPasses w @ (visibleLayers, activeLayer) #
                (if syncViewportsFlag (enabledElement w) \<and>
                    (\<exists>w3. syncViewports visibleLayers activeLayer w2 = Returns () w3)
                 then [(visibleLayers, activeLayer)] else []) \<and>
            (\<forall>a. activeLayer = Some a \<longrightarrow>
               (\<exists>w3. syncViewports visibleLayers activeLayer w2 = Returns () w3) \<and>
               (\<forall>l\<in>set visibleLayers.
                  l \<noteq> a \<and> viewport (heap w2 l) \<noteq> None \<and> viewport (heap w2 a) \<noteq> None \<longrightarrow>
                  (\<exists>r va vl.
                     getViewportRatio a l
                       (world_of (drawCompositeImage fit allLayers activeLayer visibleLayers invd w)) =
                       Returns r
                         (world_of (drawCompositeImage fit allLayers activeLayer visibleLayers invd w)) \<and>
                     viewport (heap (world_of
                       (drawCompositeImage fit allLayers activeLayer visibleLayers invd w)) a) = Some va \<and>
                     viewport (heap (world_of
                       (drawCompositeImage fit allLayers activeLayer visibleLayers invd w)) l) = Some vl \<and>
                     scale vl = scale va * r \<and>
                     rotation vl = rotation va \<and>
                     pt_x (translation vl) = pt_x (translation va) / r \<and>
                     pt_y (translation vl) = pt_y (translation va) / r \<and>
                     hflip vl = hflip va \<and> vflip vl = vflip va)))) \<and>
         (\<forall>e w2. resizeLoop fit allLayers (world_of (resyncCheck allLayers w)) = Throws e w2 \<longrightarrow>
            drawCompositeImage fit allLayers activeLayer visibleLayers invd w = Throws e w2 \<and>
            syncPasses w2 = syncPasses w)"
proof (intro conjI allI impI ballI)
  fix w2
  assume loop: "resizeLoop fit allLayers (world_of (resyncCheck allLayers w)) = Returns () w2"
  show "drawCompositeImage fit allLayers activeLayer visibleLayers invd w =
              andThen (syncViewports visibleLayers activeLayer w2) (\<lambda>u w3.
                if syncViewportsFlag (enabledElement w)
                then andThen (syncViewports visibleLayers activeLayer w3)
                       (\<lambda>u. clearAndRender visibleLayers activeLayer invd)
                else clearAndRender visibleLayers activeLayer invd w3)"
    using assms loop by (rule drawCompositeImage_after_resizeLoop)
  show "syncPasses (world_of (drawCompositeImage fit allLayers activeLayer visibleLayers invd w)) =
              syncPasses w @ (visibleLayers, activeLayer) #
                (if syncViewportsFlag (enabledElement w) \<and>
                    (\<exists>w3. syncViewports visibleLayers activeLayer w2 = Returns () w3)
                 then [(visibleLayers, activeLayer)] else [])"
    using assms loop by (rule syncPasses_after_resizeLoop)
next
  fix w2 a
  assume loop: "resizeLoop fit allLayers (world_of (resyncCheck allLayers w)) = Returns () w2"
    and a: "activeLayer = Some a"
  show "\<exists>w3. syncViewports visibleLayers activeLayer w2 = Returns () w3"
    unfolding a by (rule syncViewports_returns)
next
  fix w2 a l
  assume loop: "resizeLoop fit allLayers (world_of (resyncCheck allLayers w)) = Returns () w2"
    and a: "activeLayer = Some a" and l: "l \<in> set visibleLayers"
    and v: "l \<noteq> a \<and> viewport (heap w2 l) \<noteq> None \<and> viewport (heap w2 a) \<noteq> None"
  have "Synced a l (world_of (drawCompositeImage fit allLayers (Some a) visibleLayers invd w))"
    using Synced_after_resizeLoop[OF assms loop l] v by blast
  then show "\<exists>r va vl.
                     getViewportRatio a l
                       (world_of (drawCompositeImage fit allLayers activeLayer visibleLayers invd w)) =
                       Returns r
                         (world_of (drawCompositeImage fit allLayers activeLayer visibleLayers invd w)) \<and>
                     viewport (heap (world_of
                       (drawCompositeImage fit allLayers activeLayer visibleLayers invd w)) a) = Some va \<and>
                     viewport (heap (world_of
                       (drawCompositeImage fit allLayers activeLayer visibleLayers invd w)) l) = Some vl \<and>
                     scale vl = scale va * r \<and>
                     rotation vl = rotation va \<and>
                     pt_x (translation vl) = pt_x (translation va) / r \<and>
                     pt_y (translation vl) = pt_y (translation va) / r \<and>
                     hflip vl = hflip va \<and> vflip vl = vflip va"
    unfolding a by (rule Synced_explicit)
next
  fix e w2
  assume t: "resizeLoop fit allLayers (world_of (resyncCheck allLayers w)) = Throws e w2"
  show "drawCompositeImage fit allLayers activeLayer visibleLayers invd w = Throws e w2"
    using assms t by (rule drawCompositeImage_resizeLoop_throws)
  show "syncPasses w2 = syncPasses w"
    using resizeLoop_passes[of fit allLayers "world_of (resyncCheck allLayers w)"] t
      resyncCheck_passes[of allLayers w] by simp
qed

theorem drawCompositeImage_pet_resize_sync_passes_witness:
  "bResetPetScale [0, 1] syncOnWorld \<and> syncViewportsFlag (enabledElement syncOnWorld) \<and>
   (\<exists>w2. resizeLoop exampleFit [0, 1] (world_of (resyncCheck [0, 1] syncOnWorld)) = Returns () w2) \<and>
   syncPasses (world_of (drawCompositeImage exampleFit [0, 1] (Some 0) [0, 1] False syncOnWorld)) =
     [([0, 1], Some 0), ([0, 1], Some 0)] \<and>
   bResetPetScale [0, 1] exampleWorld \<and> \<not> syncViewportsFlag (enabledElement exampleWorld) \<and>
   (\<exists>w2. resizeLoop exampleFit [0, 1] (world_of (resyncCheck [0, 1] exampleWorld)) = Returns () w2) \<and>
   syncPasses (world_of (drawCompositeImage exampleFit [0, 1] (Some 0) [0, 1] False exampleWorld)) =
     [([0, 1], Some 0)] \<and>
   (\<exists>r va vl.
      getViewportRatio 0 1
        (world_of (drawCompositeImage exampleFit [0, 1] (Some 0) [0, 1] False exampleWorld)) =
        Returns r (world_of (drawCompositeImage exampleFit [0, 1] (Some 0) [0, 1] False exampleWorld)) \<and>
      viewport (heap (world_of
        (drawCompositeImage exampleFit [0, 1] (Some 0) [0, 1] False exampleWorld)) 0) = Some va \<and>
      viewport (heap (world_of
        (drawCompositeImage exampleFit [0, 1] (Some 0) [0, 1] False exampleWorld)) 1) = Some vl \<and>
      scale vl = scale va * r \<and>
      rotation vl = rotation va \<and>
      pt_x (translation vl) = pt_x (translation va) / r \<and>
      pt_y (translation vl) = pt_y (translation va) / r \<and>
      hflip vl = hflip va \<and> vflip vl = vflip va)"
proof -
  have p: "bResetPetScale [0, 1] syncOnWorld" "bResetPetScale [0, 1] exampleWorld"
    by (simp_all add: bResetPetScale_def isPetResize_def syncOnWorld_def example_defs)
  have f: "syncViewportsFlag (enabledElement syncOnWorld)"
    "\<not> syncViewportsFlag (enabledElement exampleWorld)"
    "syncPasses syncOnWorld = []" "syncPasses exampleWorld = []"
    by (simp_all add: syncOnWorld_def example_defs)
  obtain w2 where l2:
    "resizeLoop exampleFit [0, 1] (world_of (resyncCheck [0, 1] syncOnWorld)) = Returns () w2"
    by (simp add: draw_defs syncOnWorld_def example_defs Let_def isNonAxialPetMpr_def indexOf_def)
  obtain w2' where l2':
    "resizeLoop exampleFit [0, 1] (world_of (resyncCheck [0, 1] exampleWorld)) = Returns () w2'"
    "viewport (heap w2' 1) \<noteq> None" "viewport (heap w2' 0) \<noteq> None"
    by (simp add: draw_defs example_defs Let_def isNonAxialPetMpr_def indexOf_def)
  note on = drawCompositeImage_pet_resize_sync_passes[OF p(1), of exampleFit "Some 0" "[0, 1]" False]
  note off = drawCompositeImage_pet_resize_sync_passes[OF p(2), of exampleFit "Some 0" "[0, 1]" False]
  note on2 = on[THEN conjunct1, rule_format, OF l2]
  note off2 = off[THEN conjunct1, rule_format, OF l2'(1)]
  have r2: "\<exists>w3. syncViewports [0, 1] (Some 0) w2 = Returns () w3"
    using on2[THEN conjunct2, THEN conjunct2, rule_format, of 0] by simp
  have a: "syncPasses (world_of (drawCompositeImage exampleFit [0, 1] (Some 0) [0, 1] False syncOnWorld)) =
     [([0, 1], Some 0), ([0, 1], Some 0)]"
    using on2[THEN conjunct2, THEN conjunct1] r2 f(1,3) by simp
  have b: "syncPasses (world_of (drawCompositeImage exampleFit [0, 1] (Some 0) [0, 1] False exampleWorld)) =
     [([0, 1], Some 0)]"
    using off2[THEN conjunct2, THEN conjunct1] f(2,4) by simp
  have m: "(1::nat) \<in> set [0, 1]" "(1::nat) \<noteq> 0" by simp_all
  have c: "\<exists>r va vl.
      getViewportRatio 0 1
        (world_of (drawCompositeImage exampleFit [0, 1] (Some 0) [0, 1] False exampleWorld)) =
        Returns r (world_of (drawCompositeImage exampleFit [0, 1] (Some 0) [0, 1] False exampleWorld)) \<and>
      viewport (heap (world_of
        (drawCompositeImage exampleFit [0, 1] (Some 0) [0, 1] False exampleWorld)) 0) = Some va \<and>
      viewport (heap (world_of
        (drawCompositeImage exampleFit [0, 1] (Some 0) [0, 1] False exampleWorld)) 1) = Some vl \<and>
      scale vl = scale va * r \<and>
      rotation vl = rotation va \<and>
      pt_x (translation vl) = pt_x (translation va) / r \<and>
      pt_y (translation vl) = pt_y (translation va) / r \<and>
      hflip vl = hflip va \<and> vflip vl = vflip va"
    using off2[THEN conjunct2, THEN conjunct2, rule_format, of 0, THEN conjunct2, rule_format, of 1]
      l2'(2,3) m by simp
  have e2: "\<exists>w2. resizeLoop exampleFit [0, 1] (world_of (resyncCheck [0, 1] syncOnWorld)) = Returns () w2"
    "\<exists>w2. resizeLoop exampleFit [0, 1] (world_of (resyncCheck [0, 1] exampleWorld)) = Returns () w2"
    using l2 l2'(1) by blast+
  show ?thesis
    by (intro conjI p(1) f(1) e2(1) a p(2) f(2) e2(2) b c)
qed

text \<open>
  The claim as it was written fails where the resize loop throws. In \<open>petOnlyWorld\<close>
  every layer is named \<^verbatim>\<open>'PET'\<close>, layer 1 has a resize request pending and the sync
  flag is off: the call throws a \<^verbatim>\<open>TypeError\<close>, no pass has run, and layer 2 keeps its
  rotation of 90 degrees beside the active layer's 0. With the flag on
  (\<open>petOnlySyncOnWorld\<close>) no pass has run either.
\<close>

theorem drawCompositeImage_pet_resize_sync_counterexample:
  "bResetPetScale [1, 2] petOnlyWorld \<and>
   \<not> syncViewportsFlag (enabledElement petOnlyWorld) \<and>
   drawCompositeImage exampleFit [1, 2] (Some 1) [1, 2] False petOnlyWorld =
     Throws TypeError (world_of (drawCompositeImage exampleFit [1, 2] (Some 1) [1, 2] False petOnlyWorld)) \<and>
   syncPasses (world_of (drawCompositeImage exampleFit [1, 2] (Some 1) [1, 2] False petOnlyWorld)) = [] \<and>
   map_option rotation (viewport (heap (world_of
     (drawCompositeImage exampleFit [1, 2] (Some 1) [1, 2] False petOnlyWorld)) 1)) = Some 0 \<and>
   map_option rotation (viewport (heap (world_of
     (drawCompositeImage exampleFit [1, 2] (Some 1) [1, 2] False petOnlyWorld)) 2)) = Some 90 \<and>
   bResetPetScale [1, 2] petOnlySyncOnWorld \<and>
   syncViewportsFlag (enabledElement petOnlySyncOnWorld) \<and>
   drawCompositeImage exampleFit [1, 2] (Some 1) [1, 2] False petOnlySyncOnWorld =
     Throws TypeError
       (world_of (drawCompositeImage exampleFit [1, 2] (Some 1) [1, 2] False petOnlySyncOnWorld)) \<and>
   syncPasses (world_of
     (drawCompositeImage exampleFit [1, 2] (Some 1) [1, 2] False petOnlySyncOnWorld)) = []"
  by (simp add: petOnlyWorld_def petOnlySyncOnWorld_def draw_defs render_defs example_defs Let_def)

subsection \<open>Composite renderer: when snapshots are kept and when they are retaken\<close>

lemma rescaleImage_other:
  "j \<noteq> k \<Longrightarrow> heap (world_of (rescaleImage b j w)) k = heap w k"
  by (auto simp: rescaleImage_def updateLayer_def Let_def split: option.splits)

lemma updateLayerSyncProps_other:
  "j \<noteq> k \<Longrightarrow> heap (world_of (updateLayerSyncProps j w)) k = heap w k"
  by (auto simp: updateLayerSyncProps_def updateLayer_def split: option.splits)

lemma resizePetLayer_other:
  assumes "j \<noteq> k"
  shows "heap (world_of (resizePetLayer fit ct j ops w)) k = heap w k"
proof -
  have r: "\<And>w1. heap (world_of (andThen (rescaleImage (firstElement ct) j w1) (\<lambda>u w2.
         Returns () (updateLayer j (\<lambda>L. L\<lparr>options := Some (ops\<lparr>reSize := False\<rparr>)\<rparr>) w2)))) k
        = heap w1 k"
    subgoal for w1
      using rescaleImage_other[OF assms, of "firstElement ct" w1] assms
      by (cases "rescaleImage (firstElement ct) j w1") (simp_all add: updateLayer_def)
    done
  have u: "\<And>f w. heap (updateLayer j f w) k = heap w k"
    using assms by (simp add: updateLayer_def)
  show ?thesis
    unfolding resizePetLayer_def Let_def
    by (simp add: r u split: option.splits)
qed

lemma resizeLoop_layer_other:
  assumes "j \<noteq> k"
  shows "heap (world_of (resizeLoop_layer fit ct j w)) k = heap w k"
proof (cases "options (heap w j)")
  case None
  then show ?thesis by (simp add: resizeLoop_layer_def)
next
  case (Some ops)
  let ?R = "\<lambda>w w'. heap w' k = heap w k"
  have "?R w (world_of (andThen
            (if name ops = Some ''PET'' then resizePetLayer fit ct j ops w else Returns () w)
            (\<lambda>u w3. if viewport (heap w3 j) \<noteq> None then updateLayerSyncProps j w3
                     else Returns () w3)))"
  proof (rule andThen_rel[where R="?R"])
    show "?R w (world_of
            (if name ops = Some ''PET'' then resizePetLayer fit ct j ops w else Returns () w))"
      using assms by (simp add: resizePetLayer_other)
    show "\<And>a w1. ?R w1 (world_of (if viewport (heap w1 j) \<noteq> None
             then updateLayerSyncProps j w1 else Returns () w1))"
      using assms by (simp add: updateLayerSyncProps_other)
  qed simp
  then show ?thesis using Some by (simp add: resizeLoop_layer_def)
qed

lemma resizeLoop_layer_recaptures:
  assumes "resizeLoop_layer fit ct k w = Returns () w'" and "viewport (heap w' k) = Some v"
  shows "map_option originalScale (syncProps (heap w' k)) = Some (scale v)"
proof -
  from assms(1) obtain ops where ops: "options (heap w k) = Some ops"
    by (cases "options (heap w k)") (auto simp: resizeLoop_layer_def)
  from assms(1) ops obtain w3 where
    fin: "(if viewport (heap w3 k) \<noteq> None then updateLayerSyncProps k w3 else Returns () w3)
            = Returns () w'"
    by (cases "if name ops = Some ''PET'' then resizePetLayer fit ct k ops w else Returns () w")
       (auto simp: resizeLoop_layer_def)
  show ?thesis
  proof (cases "viewport (heap w3 k)")
    case None
    then have "w' = w3" using fin by simp
    then show ?thesis using None assms(2) by simp
  next
    case (Some v3)
    then show ?thesis
      using fin assms(2)
      by (auto simp: updateLayerSyncProps_def updateLayer_def split: option.splits)
  qed
qed

lemma forEach_Returns_preserve:
  assumes "\<And>a w w'. a \<in> set xs \<Longrightarrow> P w \<Longrightarrow> f a w = Returns () w' \<Longrightarrow> P w'"
    and "P w" and "forEach xs f w = Returns () w'"
  shows "P w'"
  using assms
proof (induction xs arbitrary: w)
  case Nil
  then show ?case by simp
next
  case (Cons a as)
  from Cons.prems(3) obtain w1 where w1: "f a w = Returns () w1"
    and rest: "forEach as f w1 = Returns () w'"
    by (cases "f a w") auto
  have P1: "P w1" using Cons.prems(1)[of a w w1] Cons.prems(2) w1 by simp
  have st: "\<And>b w w'. b \<in> set as \<Longrightarrow> P w \<Longrightarrow> f b w = Returns () w' \<Longrightarrow> P w'"
  proof -
    fix b w w' assume "b \<in> set as" "P w" "f b w = Returns () w'"
    then show "P w'" using Cons.prems(1)[of b w w'] by simp
  qed
  show ?case by (rule Cons.IH[OF st P1 rest])
qed

lemma forEach_Returns_establish:
  assumes est: "\<And>w w'. f k w = Returns () w' \<Longrightarrow> P w'"
    and pres: "\<And>a w w'. a \<noteq> k \<Longrightarrow> P w \<Longrightarrow> f a w = Returns () w' \<Longrightarrow> P w'"
    and mem: "k \<in> set xs" and ret: "forEach xs f w = Returns () w'"
  shows "P w'"
  using mem ret
proof (induction xs arbitrary: w)
  case Nil
  then show ?case by simp
next
  case (Cons a as)
  from Cons.prems(2) obtain w1 where w1: "f a w = Returns () w1"
    and rest: "forEach as f w1 = Returns () w'"
    by (cases "f a w") auto
  have step: "\<And>b w w'. b \<in> set as \<Longrightarrow> P w \<Longrightarrow> f b w = Returns () w' \<Longrightarrow> P w'"
  proof -
    fix b w w' assume b: "b \<in> set as" "P w" "f b w = Returns () w'"
    show "P w'"
    proof (cases "b = k")
      case True
      then show ?thesis using est[of w w'] b(3) by simp
    next
      case False
      then show ?thesis using pres[of b w w'] b(2,3) by simp
    qed
  qed
  show ?case
  proof (cases "a = k")
    case True
    then have P1: "P w1" using est w1 by simp
    show ?thesis
      by (rule forEach_Returns_preserve[where P=P and f=f and xs=as and w=w1])
         (use step P1 rest in blast)+
  next
    case False
    then have "k \<in> set as" using Cons.prems(1) by simp
    then show ?thesis using Cons.IH rest by simp
  qed
qed

lemma resizeLoop_recaptures:
  assumes "resizeLoop fit layers w = Returns () w2" and "k \<in> set layers"
    and "viewport (heap w2 k) = Some v"
  shows "map_option originalScale (syncProps (heap w2 k)) = Some (scale v)"
proof -
  from assms(1) obtain ct w1 where
    loop: "forEach layers (resizeLoop_layer fit ct) w1 = Returns () w2"
    by (cases "filterNotPet layers w") (auto simp: resizeLoop_def)
  let ?P = "\<lambda>w. \<forall>v. viewport (heap w k) = Some v \<longrightarrow>
                 map_option originalScale (syncProps (heap w k)) = Some (scale v)"
  have "?P w2"
  proof (rule forEach_Returns_establish[where P="?P" and f="resizeLoop_layer fit ct" and k=k])
    show "\<And>w w'. resizeLoop_layer fit ct k w = Returns () w' \<Longrightarrow> ?P w'"
      using resizeLoop_layer_recaptures by blast
    show "\<And>a w w'. a \<noteq> k \<Longrightarrow> ?P w \<Longrightarrow> resizeLoop_layer fit ct a w = Returns () w' \<Longrightarrow> ?P w'"
    proof -
      fix a w w' assume a: "a \<noteq> k" "?P w" "resizeLoop_layer fit ct a w = Returns () w'"
      have "heap w' k = heap w k" using resizeLoop_layer_other[OF a(1), of fit ct w] a(3) by simp
      then show "?P w'" using a(2) by simp
    qed
    show "k \<in> set layers" by (rule assms(2))
    show "forEach layers (resizeLoop_layer fit ct) w1 = Returns () w2" by (rule loop)
  qed
  then show ?thesis using assms(3) by blast
qed

lemma syncPasses_keep:
  "keepsSnapshots w2 (world_of (andThen (syncViewports vis act w2) (\<lambda>u w3.
             if b
             then andThen (syncViewports vis act w3) (\<lambda>u. clearAndRender vis act invd)
             else clearAndRender vis act invd w3)))"
proof (rule andThen_rel[where R=keepsSnapshots])
  show "keepsSnapshots w2 (world_of (syncViewports vis act w2))" by (rule syncViewports_keeps)
  show "\<And>a w1. keepsSnapshots w1 (world_of (if b
             then andThen (syncViewports vis act w1) (\<lambda>u. clearAndRender vis act invd)
             else clearAndRender vis act invd w1))"
  proof -
    fix w1
    have "keepsSnapshots w1 (world_of (andThen (syncViewports vis act w1)
              (\<lambda>u. clearAndRender vis act invd)))"
      by (rule andThen_rel[where R=keepsSnapshots])
         (auto intro: keepsSnapshots_trans syncViewports_keeps clearAndRender_keeps)
    then show "keepsSnapshots w1 (world_of (if b
             then andThen (syncViewports vis act w1) (\<lambda>u. clearAndRender vis act invd)
             else clearAndRender vis act invd w1))"
      by (simp add: clearAndRender_keeps)
  qed
qed (rule keepsSnapshots_trans)

lemma drawCompositeImage_keeps:
  assumes "lastSyncViewportsState (enabledElement w) \<or> \<not> syncViewportsFlag (enabledElement w)"
    and "\<not> bResetPetScale allLayers w"
  shows "keepsSnapshots w (world_of (drawCompositeImage fit allLayers act vis invd w))"
proof -
  obtain wR where r: "resyncCheck allLayers w = Returns () wR"
    and pet: "bResetPetScale allLayers wR = bResetPetScale allLayers w"
    and heap: "heap wR = heap w"
    using resyncCheck_facts[of allLayers w] assms(1) by blast
  have d: "drawCompositeImage fit allLayers act vis invd w =
      andThen (if syncViewportsFlag (enabledElement wR) then syncViewports vis act wR
               else Returns () wR) (\<lambda>u. clearAndRender vis act invd)"
    using r pet assms(2) by (simp add: drawCompositeImage_def)
  have "keepsSnapshots wR (world_of (drawCompositeImage fit allLayers act vis invd w))"
    unfolding d
    by (rule andThen_rel[where R=keepsSnapshots])
       (auto intro: keepsSnapshots_trans keepsSnapshots_refl syncViewports_keeps clearAndRender_keeps)
  then show ?thesis by (simp add: keepsSnapshots_def heap)
qed

text \<open>
  Claim C6, as amended. Take a render call in which the sync flag does not go from off to
  on. If no layer of the registry is a PET layer with a resize request pending, every
  snapshot there is before the call is still there, unchanged, after it, whether the
  call returns or throws. If some layer is, and the resize loop returns, then every
  layer of the registry that has a viewport when the loop ends, whatever its name, has a
  snapshot after the call that records the scale its viewport had when the loop ended.
\<close>

theorem drawCompositeImage_snapshots:
  assumes "lastSyncViewportsState (enabledElement w) \<or> \<not> syncViewportsFlag (enabledElement w)"
  shows "(\<not> bResetPetScale allLayers w \<longrightarrow>
            (\<forall>k sp. syncProps (heap w k) = Some sp \<longrightarrow>
               syncProps (heap (world_of (drawCompositeImage fit allLayers act vis invd w)) k) = Some sp)) \<and>
         (\<forall>w2 k v. bResetPetScale allLayers w \<and>
            resizeLoop fit allLayers (world_of (resyncCheck allLayers w)) = Returns () w2 \<and>
            k \<in> set allLayers \<and> viewport (heap w2 k) = Some v \<longrightarrow>
               map_option originalScale
                 (syncProps (heap (world_of (drawCompositeImage fit allLayers act vis invd w)) k))
               = Some (scale v))"
proof (intro conjI impI allI)
  fix k sp
  assume "\<not> bResetPetScale allLayers w" "syncProps (heap w k) = Some sp"
  then show "syncProps (heap (world_of (drawCompositeImage fit allLayers act vis invd w)) k) = Some sp"
    using drawCompositeImage_keeps[OF assms, of allLayers fit act vis invd]
    by (simp add: keepsSnapshots_def)
next
  fix w2 k v
  assume a: "bResetPetScale allLayers w \<and>
            resizeLoop fit allLayers (world_of (resyncCheck allLayers w)) = Returns () w2 \<and>
            k \<in> set allLayers \<and> viewport (heap w2 k) = Some v"
  then have "map_option originalScale (syncProps (heap w2 k)) = Some (scale v)"
    using resizeLoop_recaptures by blast
  then obtain sp where sp: "syncProps (heap w2 k) = Some sp" "originalScale sp = scale v"
    by auto
  have "keepsSnapshots w2 (world_of (drawCompositeImage fit allLayers act vis invd w))"
    using a drawCompositeImage_after_resizeLoop[of allLayers w fit w2 act vis invd] syncPasses_keep
    by simp
  then have "syncProps (heap (world_of (drawCompositeImage fit allLayers act vis invd w)) k) = Some sp"
    using sp(1) by (simp add: keepsSnapshots_def)
  then show "map_option originalScale
                 (syncProps (heap (world_of (drawCompositeImage fit allLayers act vis invd w)) k))
               = Some (scale v)"
    using sp(2) by simp
qed

theorem drawCompositeImage_snapshots_witness:
  "\<not> syncViewportsFlag (enabledElement staleSnapshotWorld) \<and>
   \<not> bResetPetScale [0] staleSnapshotWorld \<and>
   syncProps (heap staleSnapshotWorld 0) = Some \<lparr>originalScale = 5\<rparr> \<and>
   syncProps (heap (world_of
      (drawCompositeImage exampleFit [0] (Some 0) [0] False staleSnapshotWorld)) 0) =
     Some \<lparr>originalScale = 5\<rparr> \<and>
   bResetPetScale [0, 1] staleSnapshotWorld \<and>
   (\<exists>w2 v. resizeLoop exampleFit [0, 1] (world_of (resyncCheck [0, 1] staleSnapshotWorld)) =
             Returns () w2 \<and>
           viewport (heap w2 0) = Some v \<and>
           map_option originalScale (syncProps (heap (world_of
             (drawCompositeImage exampleFit [0, 1] (Some 0) [0, 1] False staleSnapshotWorld)) 0)) =
             Some (scale v))"
proof -
  have nt: "lastSyncViewportsState (enabledElement staleSnapshotWorld) \<or>
            \<not> syncViewportsFlag (enabledElement staleSnapshotWorld)"
    and f: "\<not> syncViewportsFlag (enabledElement staleSnapshotWorld)"
    and n: "\<not> bResetPetScale [0] staleSnapshotWorld"
    and p: "bResetPetScale [0, 1] staleSnapshotWorld"
    and s: "syncProps (heap staleSnapshotWorld 0) = Some \<lparr>originalScale = 5\<rparr>"
    by (simp_all add: staleSnapshotWorld_def updateLayer_def bResetPetScale_def isPetResize_def
          example_defs)
  have a: "syncProps (heap (world_of
      (drawCompositeImage exampleFit [0] (Some 0) [0] False staleSnapshotWorld)) 0) =
     Some \<lparr>originalScale = 5\<rparr>"
    using drawCompositeImage_snapshots[OF nt, of "[0]" exampleFit "Some 0" "[0]" False] n s
    by blast
  obtain w2 v where l:
    "resizeLoop exampleFit [0, 1] (world_of (resyncCheck [0, 1] staleSnapshotWorld)) = Returns () w2"
    "viewport (heap w2 0) = Some v"
    by (simp add: staleSnapshotWorld_def draw_defs example_defs Let_def isNonAxialPetMpr_def
          indexOf_def)
  have b: "map_option originalScale (syncProps (heap (world_of
             (drawCompositeImage exampleFit [0, 1] (Some 0) [0, 1] False staleSnapshotWorld)) 0)) =
             Some (scale v)"
    using drawCompositeImage_snapshots[OF nt, of "[0, 1]" exampleFit "Some 0" "[0, 1]" False] p l
    by auto
  show ?thesis using f n s a p l b by blast
qed

text \<open>
  The claim as it was written fails: in \<open>staleSnapshotWorld\<close> the sync flag is off before
  and during the call, the CT layer (layer 0) has a snapshot and is no PET layer, the
  PET layer (layer 1) has a resize request pending, the call returns, and the CT layer's
  snapshot has gone from 5 to 1.
\<close>

theorem drawCompositeImage_snapshot_counterexample:
  "\<not> syncViewportsFlag (enabledElement staleSnapshotWorld) \<and>
   \<not> lastSyncViewportsState (enabledElement staleSnapshotWorld) \<and>
   syncProps (heap staleSnapshotWorld 0) = Some \<lparr>originalScale = 5\<rparr> \<and>
   \<not> isPetResize (heap staleSnapshotWorld 0) \<and>
   drawCompositeImage exampleFit [0, 1] (Some 0) [0, 1] False staleSnapshotWorld =
     Returns () (world_of (drawCompositeImage exampleFit [0, 1] (Some 0) [0, 1] False staleSnapshotWorld)) \<and>
   syncProps (heap (world_of
      (drawCompositeImage exampleFit [0, 1] (Some 0) [0, 1] False staleSnapshotWorld)) 0) =
     Some \<lparr>originalScale = 1\<rparr>"
  by (simp add: staleSnapshotWorld_def draw_defs render_defs example_defs Let_def)

subsection \<open>Composite renderer: the base of the rescale\<close>





















end
